theory Spec2Isabelle
  imports Main "HOL-Library.Sublist" "HOL-Library.AList"
begin

section \<open>Python values and the operations the generators use\<close>

text \<open>
  The generators read a decoded JSON document and build an HTML string out of it.
  A decoded JSON value is \<^verbatim>\<open>None\<close>, a \<^verbatim>\<open>bool\<close>, an \<^verbatim>\<open>int\<close>,
  a \<^verbatim>\<open>float\<close>, a \<^verbatim>\<open>str\<close>, a \<^verbatim>\<open>list\<close> or a \<^verbatim>\<open>dict\<close>.
  A dict keeps its insertion order, so it is an association list (a Python dict has no
  repeated key; \<open>map_of\<close> reads the first binding). A float is represented by the two
  things these programs observe of it: whether it is non-zero, and its \<^verbatim>\<open>repr\<close> text.
  Strings are sequences of bytes (UTF-8); the character classes of \<^verbatim>\<open>strip\<close>,
  \<^verbatim>\<open>capitalize\<close> and \<^verbatim>\<open>\d\<close> are the ASCII ones, other bytes are left alone.
\<close>

datatype pyval =
    PNone
  | PBool bool
  | PInt int
  | PFloat bool string
  | PStr string
  | PList "pyval list"
  | PDict "(string \<times> pyval) list"

datatype py_error = AttributeError | TypeError | ValueError

type_synonym 'a res = "py_error + 'a"

definition bind :: "'a res \<Rightarrow> ('a \<Rightarrow> 'b res) \<Rightarrow> 'b res" where
  "bind m f = (case m of Inl e \<Rightarrow> Inl e | Inr x \<Rightarrow> f x)"

text \<open>Truth value testing: \<^verbatim>\<open>if x:\<close>, \<^verbatim>\<open>not x\<close>.\<close>

fun truthy :: "pyval \<Rightarrow> bool" where
  "truthy PNone = False"
| "truthy (PBool b) = b"
| "truthy (PInt i) = (i \<noteq> 0)"
| "truthy (PFloat nz r) = nz"
| "truthy (PStr s) = (s \<noteq> [])"
| "truthy (PList xs) = (xs \<noteq> [])"
| "truthy (PDict kvs) = (kvs \<noteq> [])"

text \<open>\<^verbatim>\<open>d.get(k, default)\<close>: only a dict has the method.\<close>

fun py_get :: "pyval \<Rightarrow> string \<Rightarrow> pyval \<Rightarrow> pyval res" where
  "py_get (PDict kvs) k dflt = Inr (case map_of kvs k of Some v \<Rightarrow> v | None \<Rightarrow> dflt)"
| "py_get _ k dflt = Inl AttributeError"

text \<open>\<^verbatim>\<open>for x in v\<close>: a list gives its items, a dict its keys, a string its characters.\<close>

fun py_iter :: "pyval \<Rightarrow> pyval list res" where
  "py_iter (PList xs) = Inr xs"
| "py_iter (PDict kvs) = Inr (map (\<lambda>kv. PStr (fst kv)) kvs)"
| "py_iter (PStr s) = Inr (map (\<lambda>c. PStr [c]) s)"
| "py_iter _ = Inl TypeError"

subsection \<open>\<^verbatim>\<open>str\<close> and \<^verbatim>\<open>repr\<close>\<close>

definition digit_char :: "nat \<Rightarrow> char" where
  "digit_char n = ''0123456789abcdef'' ! n"

function dec_nat :: "nat \<Rightarrow> string" where
  "dec_nat n = (if n < 10 then [digit_char n] else dec_nat (n div 10) @ [digit_char (n mod 10)])"
  by pat_completeness auto
termination
  by (relation "measure id") auto

declare dec_nat.simps [simp del]

definition dec_int :: "int \<Rightarrow> string" where
  "dec_int i = (if i < 0 then CHR ''-'' # dec_nat (nat (- i)) else dec_nat (nat i))"

text \<open>
  \<^verbatim>\<open>repr\<close> of a string: double quotes when the text has a single quote and no double
  quote, single quotes otherwise; the quote and the backslash are escaped, control characters
  are written \<^verbatim>\<open>\t\<close>, \<^verbatim>\<open>\n\<close>, \<^verbatim>\<open>\r\<close> or \<^verbatim>\<open>\xhh\<close>.
\<close>

definition repr_quote :: "string \<Rightarrow> char" where
  "repr_quote s = (if CHR 0x27 \<in> set s \<and> CHR 0x22 \<notin> set s then CHR 0x22 else CHR 0x27)"

definition repr_char :: "char \<Rightarrow> char \<Rightarrow> string" where
  "repr_char q c =
     (if c = q \<or> c = CHR 0x5C then [CHR 0x5C, c]
      else if c = CHR 0x09 then [CHR 0x5C, CHR ''t'']
      else if c = CHR 0x0A then [CHR 0x5C, CHR ''n'']
      else if c = CHR 0x0D then [CHR 0x5C, CHR ''r'']
      else if (of_char c :: nat) < 32 \<or> (of_char c :: nat) = 127
        then [CHR 0x5C, CHR ''x'', digit_char (of_char c div 16), digit_char (of_char c mod 16)]
      else [c])"

definition repr_str :: "string \<Rightarrow> string" where
  "repr_str s = (let q = repr_quote s in q # concat (map (repr_char q) s) @ [q])"

fun join :: "string \<Rightarrow> string list \<Rightarrow> string" where
  "join sep [] = []"
| "join sep [x] = x"
| "join sep (x # y # ys) = x @ sep @ join sep (y # ys)"

fun py_repr :: "pyval \<Rightarrow> string"
  and py_repr_items :: "pyval list \<Rightarrow> string list"
  and py_repr_pairs :: "(string \<times> pyval) list \<Rightarrow> string list" where
  "py_repr PNone = ''None''"
| "py_repr (PBool b) = (if b then ''True'' else ''False'')"
| "py_repr (PInt i) = dec_int i"
| "py_repr (PFloat nz r) = r"
| "py_repr (PStr s) = repr_str s"
| "py_repr (PList xs) = ''['' @ join '', '' (py_repr_items xs) @ '']''"
| "py_repr (PDict kvs) = ''{'' @ join '', '' (py_repr_pairs kvs) @ ''}''"
| "py_repr_items [] = []"
| "py_repr_items (x # xs) = py_repr x # py_repr_items xs"
| "py_repr_pairs [] = []"
| "py_repr_pairs (kv # kvs) = (repr_str (fst kv) @ '': '' @ py_repr (snd kv)) # py_repr_pairs kvs"

text \<open>\<^verbatim>\<open>str(v)\<close>, which is also what an f-string field \<^verbatim>\<open>{v}\<close> inserts.\<close>

fun py_str :: "pyval \<Rightarrow> string" where
  "py_str (PStr s) = s"
| "py_str v = py_repr v"

text \<open>\<^verbatim>\<open>s.strip()\<close>\<close>

definition is_space :: "char \<Rightarrow> bool" where
  "is_space c \<longleftrightarrow>
     c \<in> set [CHR 0x09, CHR 0x0A, CHR 0x0B, CHR 0x0C, CHR 0x0D,
               CHR 0x1C, CHR 0x1D, CHR 0x1E, CHR 0x1F, CHR 0x20]"

definition py_strip :: "string \<Rightarrow> string" where
  "py_strip s = rev (dropWhile is_space (rev (dropWhile is_space s)))"

text \<open>\<^verbatim>\<open>s.capitalize()\<close>: a method of \<^verbatim>\<open>str\<close> only.\<close>

definition to_upper :: "char \<Rightarrow> char" where
  "to_upper c =
     (case map_of (zip ''abcdefghijklmnopqrstuvwxyz'' ''ABCDEFGHIJKLMNOPQRSTUVWXYZ'') c of
        Some u \<Rightarrow> u | None \<Rightarrow> c)"

definition to_lower :: "char \<Rightarrow> char" where
  "to_lower c =
     (case map_of (zip ''ABCDEFGHIJKLMNOPQRSTUVWXYZ'' ''abcdefghijklmnopqrstuvwxyz'') c of
        Some l \<Rightarrow> l | None \<Rightarrow> c)"

fun capitalize :: "string \<Rightarrow> string" where
  "capitalize [] = []"
| "capitalize (c # cs) = to_upper c # map to_lower cs"

fun py_capitalize :: "pyval \<Rightarrow> pyval res" where
  "py_capitalize (PStr s) = Inr (PStr (capitalize s))"
| "py_capitalize _ = Inl AttributeError"

text \<open>The right operand of \<^verbatim>\<open>'...' + x\<close>: only a \<^verbatim>\<open>str\<close> can be added to a \<^verbatim>\<open>str\<close>.\<close>

fun py_str_operand :: "pyval \<Rightarrow> pyval res" where
  "py_str_operand (PStr s) = Inr (PStr s)"
| "py_str_operand _ = Inl TypeError"

section \<open>The date formatter of \<^verbatim>\<open>weasy_pdf.py\<close>\<close>

text \<open>
  \<^verbatim>\<open>datetime.strptime(s, '%Y-%m-%d')\<close>. The format is matched as the regular expression
  \<^verbatim>\<open>(\d\d\d\d)-(1[0-2]|0[1-9]|[1-9])-(3[0-1]|[1-2]\d|0[1-9]|[1-9]| [1-9])\<close> from the start
  of the text; text left over after the match, no match, and a date that does not exist
  (year 0, 30 February) are each a \<^verbatim>\<open>ValueError\<close>.
\<close>

definition is_digit :: "char \<Rightarrow> bool" where
  "is_digit c \<longleftrightarrow> c \<in> set ''0123456789''"

definition digit_val :: "char \<Rightarrow> nat" where
  "digit_val c = of_char c - 48"

text \<open>Each matcher returns the number read and the text after it.\<close>

fun match_year :: "string \<Rightarrow> (nat \<times> string) option" where
  "match_year (a # b # c # d # rest) =
     (if is_digit a \<and> is_digit b \<and> is_digit c \<and> is_digit d
      then Some (1000 * digit_val a + 100 * digit_val b + 10 * digit_val c + digit_val d, rest)
      else None)"
| "match_year _ = None"

fun match_month :: "string \<Rightarrow> (nat \<times> string) option" where
  "match_month (a # b # rest) =
     (if a = CHR ''1'' \<and> b \<in> set ''012'' then Some (10 + digit_val b, rest)
      else if a = CHR ''0'' \<and> b \<in> set ''123456789'' then Some (digit_val b, rest)
      else if a \<in> set ''123456789'' then Some (digit_val a, b # rest)
      else None)"
| "match_month [a] = (if a \<in> set ''123456789'' then Some (digit_val a, []) else None)"
| "match_month [] = None"

fun match_day :: "string \<Rightarrow> (nat \<times> string) option" where
  "match_day (a # b # rest) =
     (if a = CHR ''3'' \<and> b \<in> set ''01'' then Some (30 + digit_val b, rest)
      else if a \<in> set ''12'' \<and> is_digit b then Some (10 * digit_val a + digit_val b, rest)
      else if a = CHR ''0'' \<and> b \<in> set ''123456789'' then Some (digit_val b, rest)
      else if a \<in> set ''123456789'' then Some (digit_val a, b # rest)
      else if a = CHR '' '' \<and> b \<in> set ''123456789'' then Some (digit_val b, rest)
      else None)"
| "match_day [a] = (if a \<in> set ''123456789'' then Some (digit_val a, []) else None)"
| "match_day [] = None"

fun match_dash :: "string \<Rightarrow> string option" where
  "match_dash (c # rest) = (if c = CHR ''-'' then Some rest else None)"
| "match_dash [] = None"

definition leap_year :: "nat \<Rightarrow> bool" where
  "leap_year y \<longleftrightarrow> y mod 4 = 0 \<and> (y mod 100 \<noteq> 0 \<or> y mod 400 = 0)"

definition days_in_month :: "nat \<Rightarrow> nat \<Rightarrow> nat" where
  "days_in_month y m =
     (if m = 2 then (if leap_year y then 29 else 28)
      else if m \<in> set [4, 6, 9, 11] then 30 else 31)"

text \<open>
  In the month matcher the first alternative that matches is followed by a dash or the match
  fails as a whole: the shorter alternative would then be followed by a digit.
\<close>

definition strptime_ymd :: "string \<Rightarrow> (nat \<times> nat \<times> nat) res" where
  "strptime_ymd s =
     (case match_year s of
        None \<Rightarrow> Inl ValueError
      | Some (y, s1) \<Rightarrow>
     (case match_dash s1 of
        None \<Rightarrow> Inl ValueError
      | Some s2 \<Rightarrow>
     (case match_month s2 of
        None \<Rightarrow> Inl ValueError
      | Some (m, s3) \<Rightarrow>
     (case match_dash s3 of
        None \<Rightarrow> Inl ValueError
      | Some s4 \<Rightarrow>
     (case match_day s4 of
        None \<Rightarrow> Inl ValueError
      | Some (d, s5) \<Rightarrow>
          if s5 \<noteq> [] then Inl ValueError
          else if y < 1 \<or> days_in_month y m < d then Inl ValueError
          else Inr (y, m, d))))))"

text \<open>
  \<^verbatim>\<open>date_obj.strftime('%b %Y')\<close> in the C locale. The year is written with four digits
  (for a year below 1000 the padding is the C library's).
\<close>

definition month_abbr :: "nat \<Rightarrow> string" where
  "month_abbr m =
     [''Jan'', ''Feb'', ''Mar'', ''Apr'', ''May'', ''Jun'',
      ''Jul'', ''Aug'', ''Sep'', ''Oct'', ''Nov'', ''Dec''] ! (m - 1)"

definition year4 :: "nat \<Rightarrow> string" where
  "year4 y =
     [digit_char (y div 1000), digit_char (y div 100 mod 10),
      digit_char (y div 10 mod 10), digit_char (y mod 10)]"

definition strftime_b_Y :: "nat \<times> nat \<times> nat \<Rightarrow> string" where
  "strftime_b_Y ymd = (case ymd of (y, m, d) \<Rightarrow> month_abbr m @ '' '' @ year4 y)"

text \<open>
  \<^verbatim>\<open>format_date(date_str, is_current=False)\<close>. Inside the \<^verbatim>\<open>try\<close> the variable
  \<^verbatim>\<open>date_str\<close> is rebound to the stripped text, and this is what the handler of
  \<^verbatim>\<open>except (ValueError, TypeError, AttributeError)\<close> reads.
\<close>

definition format_date :: "pyval \<Rightarrow> pyval \<Rightarrow> string res" where
  "format_date date_str is_current =
     (if truthy is_current then Inr ''Present''
      else if \<not> truthy date_str then Inr []
      else
        (let stripped = (case date_str of
                           PStr s \<Rightarrow> py_strip s
                         | _ \<Rightarrow> py_strip (py_str date_str))
         in if stripped = [] then Inr []
            else
              (case strptime_ymd stripped of
                 Inr date_obj \<Rightarrow> Inr (strftime_b_Y date_obj)
               | Inl ValueError \<Rightarrow> Inr (if stripped \<noteq> [] then py_strip stripped else [])
               | Inl TypeError \<Rightarrow> Inr (if stripped \<noteq> [] then py_strip stripped else [])
               | Inl AttributeError \<Rightarrow> Inr (if stripped \<noteq> [] then py_strip stripped else []))))"

section \<open>Building the document\<close>

text \<open>
  Every generator builds one string by appending: string literals of the program (markup and
  style sheet) and the text of values read from the record. The model keeps the two apart
  until the end: a document is a list of pieces, \<open>Lit\<close> for text the program wrote and
  \<open>Val\<close> for the text of a value; the string the generator returns is their concatenation.
\<close>

datatype piece = Lit string | Val string

type_synonym doc = "piece list"

fun piece_text :: "piece \<Rightarrow> string" where
  "piece_text (Lit s) = s"
| "piece_text (Val s) = s"

definition html_of :: "doc \<Rightarrow> string" where
  "html_of d = concat (map piece_text d)"


fun values_of :: "doc \<Rightarrow> string list" where
  "values_of [] = []"
| "values_of (Lit s # d) = values_of d"
| "values_of (Val s # d) = s # values_of d"

text \<open>A string literal that spans many lines is written as its lines.\<close>

definition unlines :: "string list \<Rightarrow> string" where
  "unlines ls = concat (map (\<lambda>l. l @ [CHR 0x0A]) ls)"

text \<open>A string literal.\<close>

definition lit :: "string \<Rightarrow> doc res" where
  "lit s = Inr [Lit s]"

text \<open>A replacement field \<^verbatim>\<open>{v}\<close> of an f-string: \<^verbatim>\<open>format(v, '')\<close>, which is \<^verbatim>\<open>str(v)\<close>.\<close>

definition val :: "pyval res \<Rightarrow> doc res" where
  "val r = bind r (\<lambda>v. Inr [Val (py_str v)])"

text \<open>
  An f-string, and a sequence of \<^verbatim>\<open>html += ...\<close> statements: the parts are evaluated from
  left to right and the first exception ends the evaluation.
\<close>

fun fstring :: "doc res list \<Rightarrow> doc res" where
  "fstring [] = Inr []"
| "fstring (p # ps) = bind p (\<lambda>d. bind (fstring ps) (\<lambda>ds. Inr (d @ ds)))"

text \<open>\<^verbatim>\<open>for x in v: html += body(x)\<close>\<close>

definition for_each :: "pyval res \<Rightarrow> (pyval \<Rightarrow> doc res) \<Rightarrow> doc res" where
  "for_each r body = bind r (\<lambda>v. bind (py_iter v) (\<lambda>items. fstring (map body items)))"

text \<open>Conditions: \<^verbatim>\<open>if v\<close>, \<^verbatim>\<open>a or b\<close>, \<^verbatim>\<open>a and b\<close> (the right operand is not evaluated when the left one decides).\<close>

definition test :: "pyval res \<Rightarrow> bool res" where
  "test r = bind r (\<lambda>v. Inr (truthy v))"

definition py_or :: "bool res \<Rightarrow> bool res \<Rightarrow> bool res" where
  "py_or a b = bind a (\<lambda>x. if x then Inr True else b)"

definition py_and :: "bool res \<Rightarrow> bool res \<Rightarrow> bool res" where
  "py_and a b = bind a (\<lambda>x. if x then b else Inr False)"

section \<open>\<^verbatim>\<open>pdf-generator.py\<close>: the professional template\<close>

text \<open>The lines of the first string literal of \<^verbatim>\<open>generate_professional_template\<close>, which holds the style sheet.\<close>

definition pg_professional_head_lines :: "string list" where
  \<open>pg_professional_head_lines =
    [[],
     ''    <html>'',
     ''    <head>'',
     ''        <meta charset="UTF-8">'',
     ''        <style>'',
     ''            @page {'',
     ''                size: A4;'',
     ''                margin: 1cm;'',
     ''            }'',
     ''            body {'',
     ''                font-family: Arial, sans-serif;'',
     ''                font-size: 11pt;'',
     ''                color: #333;'',
     ''                line-height: 1.4;'',
     ''            }'',
     ''            .header {'',
     ''                margin-bottom: 20px;'',
     ''            }'',
     ''            .name {'',
     ''                font-size: 24pt;'',
     ''                font-weight: bold;'',
     ''                color: #043e44;'',
     ''                margin: 0;'',
     ''            }'',
     ''            .title {'',
     ''                font-size: 14pt;'',
     ''                color: #03d27c;'',
     ''                margin: 5px 0 10px 0;'',
     ''            }'',
     ''            .contact-info {'',
     ''                margin-bottom: 15px;'',
     ''                font-size: 10pt;'',
     ''            }'',
     ''            .section {'',
     ''                margin-bottom: 20px;'',
     ''            }'',
     ''            .section-title {'',
     ''                font-size: 14pt;'',
     ''                font-weight: bold;'',
     ''                color: #043e44;'',
     ''                border-bottom: 2px solid #03d27c;'',
     ''                padding-bottom: 5px;'',
     ''                margin-bottom: 10px;'',
     ''            }'',
     ''            .company-title {'',
     ''                font-weight: bold;'',
     ''                margin-bottom: 0;'',
     ''            }'',
     ''            .job-title {'',
     ''                font-style: italic;'',
     ''                color: #03d27c;'',
     ''            }'',
     ''            .date-range {'',
     ''                font-size: 10pt;'',
     ''                color: #666;'',
     ''            }'',
     ''            .responsibilities {'',
     ''                margin-top: 5px;'',
     ''            }'',
     ''            .school-name {'',
     ''                font-weight: bold;'',
     ''            }'',
     ''            .degree {'',
     ''                font-style: italic;'',
     ''            }'',
     ''            .skills-list {'',
     ''                column-count: 2;'',
     ''                column-gap: 20px;'',
     ''            }'',
     ''            .skills-item {'',
     ''                margin-bottom: 5px;'',
     ''                break-inside: avoid;'',
     ''            }'',
     ''            .language {'',
     ''                margin-bottom: 5px;'',
     ''            }'',
     ''            .language-name {'',
     ''                font-weight: bold;'',
     ''            }'',
     ''            .language-level {'',
     ''                font-style: italic;'',
     ''                color: #666;'',
     ''            }'',
     ''        </style>'',
     ''    </head>'',
     ''    <body>'',
     ''        <div class="header">'']\<close>

text \<open>\<^verbatim>\<open>pdf-generator.py\<close>, line 106.\<close>

definition pg_professional_page_head :: "pyval \<Rightarrow> doc res" where
  \<open>pg_professional_page_head personal =
    fstring
       [lit (unlines pg_professional_head_lines @ ''            <h1 class="name">''),
        val (py_get personal ''firstName'' (PStr [])),
        lit '' '',
        val (py_get personal ''lastName'' (PStr [])),
        lit (''</h1>\<newline>''
            @ ''            <div class="title">''),
        val (py_get personal ''professionalTitle'' (PStr [])),
        lit (''</div>\<newline>''
            @ ''            <div class="contact-info">\<newline>''
            @ ''                ''),
        val (py_get personal ''email'' (PStr [])),
        lit '' | '',
        val (py_get personal ''phone'' (PStr [])),
        lit (''\<newline>''
            @ ''                ''),
        bind (test (py_get personal ''linkedin'' PNone)) (\<lambda>c. if c
          then fstring [lit '' | LinkedIn: '', val (bind (py_get personal ''linkedin'' (PStr [])) py_str_operand)]
          else lit []),
        lit (''\<newline>''
            @ ''            </div>\<newline>''
            @ ''        </div>\<newline>''
            @ ''    '')]\<close>

text \<open>\<^verbatim>\<open>pdf-generator.py\<close>, line 203.\<close>

definition pg_professional_summary :: "pyval \<Rightarrow> doc res" where
  \<open>pg_professional_summary summary =
    bind (test (py_get summary ''summary'' PNone)) (\<lambda>c. if c
        then fstring
              [lit (''\<newline>''
                   @ ''        <div class="section">\<newline>''
                   @ ''            <div class="section-title">Professional Summary</div>\<newline>''
                   @ ''            <p>''),
               val (py_get summary ''summary'' (PStr [])),
               lit (''</p>\<newline>''
                   @ ''        </div>\<newline>''
                   @ ''        '')]
        else Inr [])\<close>

text \<open>\<^verbatim>\<open>pdf-generator.py\<close>, line 212.\<close>

definition pg_professional_competencies :: "pyval \<Rightarrow> doc res" where
  \<open>pg_professional_competencies keyCompetencies =
    bind (py_or (test (py_get keyCompetencies ''technicalSkills'' PNone)) (test (py_get keyCompetencies ''softSkills'' PNone))) (\<lambda>c. if c
        then fstring
            [fstring
              [lit (''\<newline>''
                   @ ''        <div class="section">\<newline>''
                   @ ''            <div class="section-title">Key Competencies</div>\<newline>''
                   @ ''            <div class="skills-list">\<newline>''
                   @ ''        '')],
             bind (test (py_get keyCompetencies ''technicalSkills'' PNone)) (\<lambda>c. if c
               then fstring
                   [lit ''<strong>Technical Skills:</strong><br/>'',
                    for_each (py_get keyCompetencies ''technicalSkills'' (PList [])) (\<lambda>skill. fstring
                         [lit (''<div class="skills-item">'' @ [CHR 0xE2, CHR 0x80, CHR 0xA2] @ '' ''),
                          val (Inr skill),
                          lit ''</div>''])]
               else Inr []),
             bind (test (py_get keyCompetencies ''softSkills'' PNone)) (\<lambda>c. if c
               then fstring
                   [lit ''<br/><strong>Soft Skills:</strong><br/>'',
                    for_each (py_get keyCompetencies ''softSkills'' (PList [])) (\<lambda>skill. fstring
                         [lit (''<div class="skills-item">'' @ [CHR 0xE2, CHR 0x80, CHR 0xA2] @ '' ''),
                          val (Inr skill),
                          lit ''</div>''])]
               else Inr []),
             lit ''</div></div>'']
        else Inr [])\<close>

text \<open>\<^verbatim>\<open>pdf-generator.py\<close>, line 238.\<close>

definition pg_professional_experience_entry :: "pyval \<Rightarrow> doc res" where
  \<open>pg_professional_experience_entry exp =
    bind (py_get exp ''isCurrent'' (PBool False)) (\<lambda>current.
      bind (bind (test (Inr current)) (\<lambda>c. if c then Inr (PStr ''Present'') else py_get exp ''endDate'' (PStr []))) (\<lambda>end_date.
        fstring
           [lit (''\<newline>''
                @ ''            <div style="margin-bottom: 15px;">\<newline>''
                @ ''                <p class="company-title">''),
            val (py_get exp ''companyName'' (PStr [])),
            lit (''</p>\<newline>''
                @ ''                <p class="job-title">''),
            val (py_get exp ''jobTitle'' (PStr [])),
            lit (''</p>\<newline>''
                @ ''                <p class="date-range">''),
            val (py_get exp ''startDate'' (PStr [])),
            lit '' - '',
            val (Inr end_date),
            lit (''</p>\<newline>''
                @ ''                <div class="responsibilities">\<newline>''
                @ ''                    ''),
            val (py_get exp ''responsibilities'' (PStr [])),
            lit (''\<newline>''
                @ ''                </div>\<newline>''
                @ ''            </div>\<newline>''
                @ ''            '')]))\<close>

text \<open>\<^verbatim>\<open>pdf-generator.py\<close>, line 232.\<close>

definition pg_professional_experience :: "pyval \<Rightarrow> doc res" where
  \<open>pg_professional_experience experiences =
    bind (test (Inr experiences)) (\<lambda>c. if c
        then fstring
            [lit (''\<newline>''
                 @ ''        <div class="section">\<newline>''
                 @ ''            <div class="section-title">Professional Experience</div>\<newline>''
                 @ ''        ''),
             for_each (Inr experiences) pg_professional_experience_entry,
             lit ''</div>'']
        else Inr [])\<close>

text \<open>\<^verbatim>\<open>pdf-generator.py\<close>, line 262.\<close>

definition pg_professional_education_entry :: "pyval \<Rightarrow> doc res" where
  \<open>pg_professional_education_entry edu =
    fstring
       [lit (''\<newline>''
            @ ''            <div style="margin-bottom: 15px;">\<newline>''
            @ ''                <p class="school-name">''),
        val (py_get edu ''schoolName'' (PStr [])),
        lit (''</p>\<newline>''
            @ ''                <p class="degree">''),
        val (py_get edu ''major'' (PStr [])),
        lit (''</p>\<newline>''
            @ ''                <p class="date-range">''),
        val (py_get edu ''startDate'' (PStr [])),
        lit '' - '',
        val (py_get edu ''endDate'' (PStr [])),
        lit (''</p>\<newline>''
            @ ''                ''),
        bind (test (py_get edu ''achievements'' PNone)) (\<lambda>c. if c
          then fstring
                [lit ''<p>'',
                 val (py_get edu ''achievements'' (PStr [])),
                 lit ''</p>'']
          else lit []),
        lit (''\<newline>''
            @ ''            </div>\<newline>''
            @ ''            '')]\<close>

text \<open>\<^verbatim>\<open>pdf-generator.py\<close>, line 256.\<close>

definition pg_professional_education :: "pyval \<Rightarrow> doc res" where
  \<open>pg_professional_education educations =
    bind (test (Inr educations)) (\<lambda>c. if c
        then fstring
            [lit (''\<newline>''
                 @ ''        <div class="section">\<newline>''
                 @ ''            <div class="section-title">Education</div>\<newline>''
                 @ ''        ''),
             for_each (Inr educations) pg_professional_education_entry,
             lit ''</div>'']
        else Inr [])\<close>

text \<open>\<^verbatim>\<open>pdf-generator.py\<close>, line 281.\<close>

definition pg_professional_certificate_entry :: "pyval \<Rightarrow> doc res" where
  \<open>pg_professional_certificate_entry cert =
    bind (bind (test (py_get cert ''expirationDate'' PNone)) (\<lambda>c. if c
          then fstring
                [lit '' (Expires: '',
                 val (py_get cert ''expirationDate'' PNone),
                 lit '')'']
          else lit [])) (\<lambda>expiration.
      fstring
         [lit (''\<newline>''
              @ ''            <div style="margin-bottom: 10px;">\<newline>''
              @ ''                <p><strong>''),
          val (py_get cert ''name'' (PStr [])),
          lit ''</strong> - '',
          val (py_get cert ''institution'' (PStr [])),
          lit (''</p>\<newline>''
              @ ''                <p class="date-range">Acquired: ''),
          val (py_get cert ''dateAcquired'' (PStr [])),
          Inr expiration,
          lit (''</p>\<newline>''
              @ ''                ''),
          bind (test (py_get cert ''achievements'' PNone)) (\<lambda>c. if c
            then fstring
                  [lit ''<p>'',
                   val (py_get cert ''achievements'' (PStr [])),
                   lit ''</p>'']
            else lit []),
          lit (''\<newline>''
              @ ''            </div>\<newline>''
              @ ''            '')])\<close>

text \<open>\<^verbatim>\<open>pdf-generator.py\<close>, line 275.\<close>

definition pg_professional_certificates :: "pyval \<Rightarrow> doc res" where
  \<open>pg_professional_certificates certificates =
    bind (test (Inr certificates)) (\<lambda>c. if c
        then fstring
            [lit (''\<newline>''
                 @ ''        <div class="section">\<newline>''
                 @ ''            <div class="section-title">Certifications</div>\<newline>''
                 @ ''        ''),
             for_each (Inr certificates) pg_professional_certificate_entry,
             lit ''</div>'']
        else Inr [])\<close>

text \<open>\<^verbatim>\<open>pdf-generator.py\<close>, line 301.\<close>

definition pg_professional_language_entry :: "pyval \<Rightarrow> doc res" where
  \<open>pg_professional_language_entry lang =
    fstring
       [lit (''\<newline>''
            @ ''            <div class="language">\<newline>''
            @ ''                <span class="language-name">''),
        val (py_get lang ''name'' (PStr [])),
        lit (''</span> - \<newline>''
            @ ''                <span class="language-level">''),
        val (bind (py_get lang ''proficiency'' (PStr [])) py_capitalize),
        lit (''</span>\<newline>''
            @ ''            </div>\<newline>''
            @ ''            '')]\<close>

text \<open>\<^verbatim>\<open>pdf-generator.py\<close>, line 295.\<close>

definition pg_professional_languages :: "pyval \<Rightarrow> doc res" where
  \<open>pg_professional_languages languages =
    bind (test (Inr languages)) (\<lambda>c. if c
        then fstring
            [lit (''\<newline>''
                 @ ''        <div class="section">\<newline>''
                 @ ''            <div class="section-title">Languages</div>\<newline>''
                 @ ''        ''),
             for_each (Inr languages) pg_professional_language_entry,
             lit ''</div>'']
        else Inr [])\<close>

text \<open>\<^verbatim>\<open>pdf-generator.py\<close>, line 312.\<close>

definition pg_professional_additional :: "pyval \<Rightarrow> doc res" where
  \<open>pg_professional_additional additional =
    bind (test (py_get additional ''skills'' PNone)) (\<lambda>c. if c
        then fstring
            [lit (''\<newline>''
                 @ ''        <div class="section">\<newline>''
                 @ ''            <div class="section-title">Additional Skills</div>\<newline>''
                 @ ''            <div class="skills-list">\<newline>''
                 @ ''        ''),
             for_each (py_get additional ''skills'' (PList [])) (\<lambda>skill. fstring
                  [lit (''<div class="skills-item">'' @ [CHR 0xE2, CHR 0x80, CHR 0xA2] @ '' ''),
                   val (Inr skill),
                   lit ''</div>'']),
             lit ''</div></div>'']
        else Inr [])\<close>

text \<open>\<^verbatim>\<open>pdf-generator.py\<close>, line 324.\<close>

definition pg_professional_page_tail :: "doc res" where
  \<open>pg_professional_page_tail =
    lit (''\<newline>''
          @ ''    </body>\<newline>''
          @ ''    </html>\<newline>''
          @ ''    '')\<close>

text \<open>\<^verbatim>\<open>generate_professional_template\<close> of \<^verbatim>\<open>pdf-generator.py\<close>: the pieces in the order the function appends them.\<close>

definition pg_professional_doc :: "pyval \<Rightarrow> doc res" where
  "pg_professional_doc cv_data =
    bind (py_get cv_data ''personal'' (PDict [])) (\<lambda>personal.
    bind (py_get cv_data ''summary'' (PDict [])) (\<lambda>summary.
    bind (py_get cv_data ''keyCompetencies'' (PDict [])) (\<lambda>keyCompetencies.
    bind (py_get cv_data ''experiences'' (PList [])) (\<lambda>experiences.
    bind (py_get cv_data ''educations'' (PList [])) (\<lambda>educations.
    bind (py_get cv_data ''certificates'' (PList [])) (\<lambda>certificates.
    bind (py_get cv_data ''languages'' (PList [])) (\<lambda>languages.
    bind (py_get cv_data ''additional'' (PDict [])) (\<lambda>additional.
    fstring
      [pg_professional_page_head personal,
       pg_professional_summary summary,
       pg_professional_competencies keyCompetencies,
       pg_professional_experience experiences,
       pg_professional_education educations,
       pg_professional_certificates certificates,
       pg_professional_languages languages,
       pg_professional_additional additional,
       pg_professional_page_tail]))))))))"

definition pg_generate_professional_template :: "pyval \<Rightarrow> string res" where
  "pg_generate_professional_template cv_data = bind (pg_professional_doc cv_data) (\<lambda>d. Inr (html_of d))"

section \<open>\<^verbatim>\<open>pdf-generator.py\<close>: the modern template\<close>

text \<open>The lines of the first string literal of \<^verbatim>\<open>generate_modern_template\<close>, which holds the style sheet.\<close>

definition pg_modern_head_lines :: "string list" where
  \<open>pg_modern_head_lines =
    [[],
     ''    <html>'',
     ''    <head>'',
     ''        <meta charset="UTF-8">'',
     ''        <style>'',
     ''            @page {'',
     ''                size: A4;'',
     ''                margin: 1cm;'',
     ''            }'',
     ''            body {'',
     ''                font-family: Arial, sans-serif;'',
     ''                font-size: 11pt;'',
     ''                color: #333;'',
     ''                line-height: 1.4;'',
     ''                margin: 0;'',
     ''                padding: 0;'',
     ''            }'',
     ''            .header {'',
     ''                background-color: #03d27c;'',
     ''                color: white;'',
     ''                padding: 25px;'',
     ''                margin-bottom: 20px;'',
     ''            }'',
     ''            .name {'',
     ''                font-size: 24pt;'',
     ''                font-weight: bold;'',
     ''                margin: 0;'',
     ''            }'',
     ''            .title {'',
     ''                font-size: 14pt;'',
     ''                margin: 5px 0 10px 0;'',
     ''                opacity: 0.9;'',
     ''            }'',
     ''            .contact-info {'',
     ''                font-size: 10pt;'',
     ''                opacity: 0.9;'',
     ''            }'',
     ''            .main-content {'',
     ''                padding: 0 20px;'',
     ''            }'',
     ''            .section {'',
     ''                margin-bottom: 20px;'',
     ''            }'',
     ''            .section-title {'',
     ''                font-size: 14pt;'',
     ''                font-weight: bold;'',
     ''                color: #03d27c;'',
     ''                margin-bottom: 10px;'',
     ''                display: flex;'',
     ''                align-items: center;'',
     ''            }'',
     ''            .section-title:before {'',
     ''                content: "";'',
     ''                display: inline-block;'',
     ''                width: 10px;'',
     ''                height: 10px;'',
     ''                background-color: #03d27c;'',
     ''                margin-right: 10px;'',
     ''            }'',
     ''            .company-title {'',
     ''                font-weight: bold;'',
     ''                margin-bottom: 0;'',
     ''                color: #043e44;'',
     ''            }'',
     ''            .job-title {'',
     ''                font-weight: bold;'',
     ''                color: #03d27c;'',
     ''            }'',
     ''            .date-range {'',
     ''                font-size: 10pt;'',
     ''                color: #666;'',
     ''                margin-bottom: 5px;'',
     ''            }'',
     ''            .responsibilities {'',
     ''                margin-top: 5px;'',
     ''            }'',
     ''            .school-name {'',
     ''                font-weight: bold;'',
     ''                color: #043e44;'',
     ''            }'',
     ''            .degree {'',
     ''                font-weight: bold;'',
     ''            }'',
     ''            .skills-list {'',
     ''                display: flex;'',
     ''                flex-wrap: wrap;'',
     ''                gap: 10px;'',
     ''            }'',
     ''            .skill-pill {'',
     ''                background-color: #eee;'',
     ''                padding: 5px 10px;'',
     ''                border-radius: 15px;'',
     ''                font-size: 10pt;'',
     ''            }'',
     ''            .language {'',
     ''                margin-bottom: 5px;'',
     ''            }'',
     ''            .language-name {'',
     ''                font-weight: bold;'',
     ''                color: #043e44;'',
     ''            }'',
     ''            .language-level {'',
     ''                font-size: 10pt;'',
     ''                color: #03d27c;'',
     ''            }'',
     ''            .timeline-entry {'',
     ''                position: relative;'',
     ''                padding-left: 20px;'',
     ''                margin-bottom: 15px;'',
     ''            }'',
     ''            .timeline-entry:before {'',
     ''                content: "";'',
     ''                position: absolute;'',
     ''                left: 0;'',
     ''                top: 0;'',
     ''                bottom: 0;'',
     ''                width: 2px;'',
     ''                background-color: #eee;'',
     ''            }'',
     ''            .timeline-entry:after {'',
     ''                content: "";'',
     ''                position: absolute;'',
     ''                left: -4px;'',
     ''                top: 0;'',
     ''                width: 10px;'',
     ''                height: 10px;'',
     ''                border-radius: 50%;'',
     ''                background-color: #03d27c;'',
     ''            }'',
     ''        </style>'',
     ''    </head>'',
     ''    <body>'',
     ''        <div class="header">'']\<close>

text \<open>\<^verbatim>\<open>pdf-generator.py\<close>, line 342.\<close>

definition pg_modern_page_head :: "pyval \<Rightarrow> doc res" where
  \<open>pg_modern_page_head personal =
    fstring
       [lit (unlines pg_modern_head_lines @ ''            <h1 class="name">''),
        val (py_get personal ''firstName'' (PStr [])),
        lit '' '',
        val (py_get personal ''lastName'' (PStr [])),
        lit (''</h1>\<newline>''
            @ ''            <div class="title">''),
        val (py_get personal ''professionalTitle'' (PStr [])),
        lit (''</div>\<newline>''
            @ ''            <div class="contact-info">\<newline>''
            @ ''                ''),
        val (py_get personal ''email'' (PStr [])),
        lit '' | '',
        val (py_get personal ''phone'' (PStr [])),
        lit (''\<newline>''
            @ ''                ''),
        bind (test (py_get personal ''linkedin'' PNone)) (\<lambda>c. if c
          then fstring [lit '' | LinkedIn: '', val (bind (py_get personal ''linkedin'' (PStr [])) py_str_operand)]
          else lit []),
        lit (''\<newline>''
            @ ''            </div>\<newline>''
            @ ''        </div>\<newline>''
            @ ''        \<newline>''
            @ ''        <div class="main-content">\<newline>''
            @ ''    '')]\<close>

text \<open>\<^verbatim>\<open>pdf-generator.py\<close>, line 487.\<close>

definition pg_modern_summary :: "pyval \<Rightarrow> doc res" where
  \<open>pg_modern_summary summary =
    bind (test (py_get summary ''summary'' PNone)) (\<lambda>c. if c
        then fstring
              [lit (''\<newline>''
                   @ ''        <div class="section">\<newline>''
                   @ ''            <div class="section-title">Professional Summary</div>\<newline>''
                   @ ''            <p>''),
               val (py_get summary ''summary'' (PStr [])),
               lit (''</p>\<newline>''
                   @ ''        </div>\<newline>''
                   @ ''        '')]
        else Inr [])\<close>

text \<open>\<^verbatim>\<open>pdf-generator.py\<close>, line 502.\<close>

definition pg_modern_experience_entry :: "pyval \<Rightarrow> doc res" where
  \<open>pg_modern_experience_entry exp =
    bind (py_get exp ''isCurrent'' (PBool False)) (\<lambda>current.
      bind (bind (test (Inr current)) (\<lambda>c. if c then Inr (PStr ''Present'') else py_get exp ''endDate'' (PStr []))) (\<lambda>end_date.
        fstring
           [lit (''\<newline>''
                @ ''            <div class="timeline-entry">\<newline>''
                @ ''                <p class="company-title">''),
            val (py_get exp ''companyName'' (PStr [])),
            lit (''</p>\<newline>''
                @ ''                <p class="job-title">''),
            val (py_get exp ''jobTitle'' (PStr [])),
            lit (''</p>\<newline>''
                @ ''                <p class="date-range">''),
            val (py_get exp ''startDate'' (PStr [])),
            lit '' - '',
            val (Inr end_date),
            lit (''</p>\<newline>''
                @ ''                <div class="responsibilities">\<newline>''
                @ ''                    ''),
            val (py_get exp ''responsibilities'' (PStr [])),
            lit (''\<newline>''
                @ ''                </div>\<newline>''
                @ ''            </div>\<newline>''
                @ ''            '')]))\<close>

text \<open>\<^verbatim>\<open>pdf-generator.py\<close>, line 496.\<close>

definition pg_modern_experience :: "pyval \<Rightarrow> doc res" where
  \<open>pg_modern_experience experiences =
    bind (test (Inr experiences)) (\<lambda>c. if c
        then fstring
            [lit (''\<newline>''
                 @ ''        <div class="section">\<newline>''
                 @ ''            <div class="section-title">Experience</div>\<newline>''
                 @ ''        ''),
             for_each (Inr experiences) pg_modern_experience_entry,
             lit ''</div>'']
        else Inr [])\<close>

text \<open>\<^verbatim>\<open>pdf-generator.py\<close>, line 526.\<close>

definition pg_modern_education_entry :: "pyval \<Rightarrow> doc res" where
  \<open>pg_modern_education_entry edu =
    fstring
       [lit (''\<newline>''
            @ ''            <div class="timeline-entry">\<newline>''
            @ ''                <p class="school-name">''),
        val (py_get edu ''schoolName'' (PStr [])),
        lit (''</p>\<newline>''
            @ ''                <p class="degree">''),
        val (py_get edu ''major'' (PStr [])),
        lit (''</p>\<newline>''
            @ ''                <p class="date-range">''),
        val (py_get edu ''startDate'' (PStr [])),
        lit '' - '',
        val (py_get edu ''endDate'' (PStr [])),
        lit (''</p>\<newline>''
            @ ''                ''),
        bind (test (py_get edu ''achievements'' PNone)) (\<lambda>c. if c
          then fstring
                [lit ''<p>'',
                 val (py_get edu ''achievements'' (PStr [])),
                 lit ''</p>'']
          else lit []),
        lit (''\<newline>''
            @ ''            </div>\<newline>''
            @ ''            '')]\<close>

text \<open>\<^verbatim>\<open>pdf-generator.py\<close>, line 520.\<close>

definition pg_modern_education :: "pyval \<Rightarrow> doc res" where
  \<open>pg_modern_education educations =
    bind (test (Inr educations)) (\<lambda>c. if c
        then fstring
            [lit (''\<newline>''
                 @ ''        <div class="section">\<newline>''
                 @ ''            <div class="section-title">Education</div>\<newline>''
                 @ ''        ''),
             for_each (Inr educations) pg_modern_education_entry,
             lit ''</div>'']
        else Inr [])\<close>

text \<open>\<^verbatim>\<open>pdf-generator.py\<close>, line 539.\<close>

definition pg_modern_competencies :: "pyval \<Rightarrow> doc res" where
  \<open>pg_modern_competencies keyCompetencies =
    bind (py_or (test (py_get keyCompetencies ''technicalSkills'' PNone)) (test (py_get keyCompetencies ''softSkills'' PNone))) (\<lambda>c. if c
        then fstring
            [lit (''\<newline>''
                 @ ''        <div class="section">\<newline>''
                 @ ''            <div class="section-title">Key Competencies</div>\<newline>''
                 @ ''        ''),
             bind (test (py_get keyCompetencies ''technicalSkills'' PNone)) (\<lambda>c. if c
               then fstring
                   [lit (''\<newline>''
                        @ ''            <div style="margin-bottom: 10px;">\<newline>''
                        @ ''                <p style="color: #043e44; font-weight: bold;">Technical Skills</p>\<newline>''
                        @ ''                <div class="skills-list">\<newline>''
                        @ ''            ''),
                    for_each (py_get keyCompetencies ''technicalSkills'' (PList [])) (\<lambda>skill. fstring
                         [lit ''<div class="skill-pill">'',
                          val (Inr skill),
                          lit ''</div>'']),
                    lit ''</div></div>'']
               else Inr []),
             bind (test (py_get keyCompetencies ''softSkills'' PNone)) (\<lambda>c. if c
               then fstring
                   [lit (''\<newline>''
                        @ ''            <div>\<newline>''
                        @ ''                <p style="color: #043e44; font-weight: bold;">Soft Skills</p>\<newline>''
                        @ ''                <div class="skills-list">\<newline>''
                        @ ''            ''),
                    for_each (py_get keyCompetencies ''softSkills'' (PList [])) (\<lambda>skill. fstring
                         [lit ''<div class="skill-pill">'',
                          val (Inr skill),
                          lit ''</div>'']),
                    lit ''</div></div>'']
               else Inr []),
             lit ''</div>'']
        else Inr [])\<close>

text \<open>\<^verbatim>\<open>pdf-generator.py\<close>, line 584.\<close>

definition pg_modern_certificate_entry :: "pyval \<Rightarrow> doc res" where
  \<open>pg_modern_certificate_entry cert =
    bind (bind (test (py_get cert ''expirationDate'' PNone)) (\<lambda>c. if c
          then fstring
                [lit '' (Expires: '',
                 val (py_get cert ''expirationDate'' PNone),
                 lit '')'']
          else lit [])) (\<lambda>expiration.
      fstring
         [lit (''\<newline>''
              @ ''                <div style="margin-bottom: 10px;">\<newline>''
              @ ''                    <p><strong>''),
          val (py_get cert ''name'' (PStr [])),
          lit (''</strong></p>\<newline>''
              @ ''                    <p style="margin: 0;">''),
          val (py_get cert ''institution'' (PStr [])),
          lit (''</p>\<newline>''
              @ ''                    <p class="date-range" style="margin-top: 2px;">Acquired: ''),
          val (py_get cert ''dateAcquired'' (PStr [])),
          Inr expiration,
          lit (''</p>\<newline>''
              @ ''                </div>\<newline>''
              @ ''                '')])\<close>

text \<open>\<^verbatim>\<open>pdf-generator.py\<close>, line 604.\<close>

definition pg_modern_language_entry :: "pyval \<Rightarrow> doc res" where
  \<open>pg_modern_language_entry lang =
    fstring
       [lit (''\<newline>''
            @ ''                <div class="language">\<newline>''
            @ ''                    <span class="language-name">''),
        val (py_get lang ''name'' (PStr [])),
        lit (''</span> - \<newline>''
            @ ''                    <span class="language-level">''),
        val (bind (py_get lang ''proficiency'' (PStr [])) py_capitalize),
        lit (''</span>\<newline>''
            @ ''                </div>\<newline>''
            @ ''                '')]\<close>

text \<open>\<^verbatim>\<open>pdf-generator.py\<close>, line 572.\<close>

definition pg_modern_certificates_languages :: "pyval \<Rightarrow> pyval \<Rightarrow> doc res" where
  \<open>pg_modern_certificates_languages certificates languages =
    bind (py_or (test (Inr certificates)) (test (Inr languages))) (\<lambda>c. if c
        then fstring
            [lit (''\<newline>''
                 @ ''        <div class="section" style="display: flex; gap: 20px;">\<newline>''
                 @ ''        ''),
             bind (test (Inr certificates)) (\<lambda>c. if c
               then fstring
                   [lit (''\<newline>''
                        @ ''            <div style="flex: 1;">\<newline>''
                        @ ''                <div class="section-title">Certifications</div>\<newline>''
                        @ ''            ''),
                    for_each (Inr certificates) pg_modern_certificate_entry,
                    lit ''</div>'']
               else Inr []),
             bind (test (Inr languages)) (\<lambda>c. if c
               then fstring
                   [lit (''\<newline>''
                        @ ''            <div style="flex: 1;">\<newline>''
                        @ ''                <div class="section-title">Languages</div>\<newline>''
                        @ ''            ''),
                    for_each (Inr languages) pg_modern_language_entry,
                    lit ''</div>'']
               else Inr []),
             lit ''</div>'']
        else Inr [])\<close>

text \<open>\<^verbatim>\<open>pdf-generator.py\<close>, line 617.\<close>

definition pg_modern_additional :: "pyval \<Rightarrow> doc res" where
  \<open>pg_modern_additional additional =
    bind (test (py_get additional ''skills'' PNone)) (\<lambda>c. if c
        then fstring
            [lit (''\<newline>''
                 @ ''        <div class="section">\<newline>''
                 @ ''            <div class="section-title">Additional Skills</div>\<newline>''
                 @ ''            <div class="skills-list">\<newline>''
                 @ ''        ''),
             for_each (py_get additional ''skills'' (PList [])) (\<lambda>skill. fstring
                  [lit ''<div class="skill-pill">'',
                   val (Inr skill),
                   lit ''</div>'']),
             lit ''</div></div>'']
        else Inr [])\<close>

text \<open>\<^verbatim>\<open>pdf-generator.py\<close>, line 629.\<close>

definition pg_modern_page_tail :: "doc res" where
  \<open>pg_modern_page_tail =
    lit (''\<newline>''
          @ ''        </div>\<newline>''
          @ ''    </body>\<newline>''
          @ ''    </html>\<newline>''
          @ ''    '')\<close>

text \<open>\<^verbatim>\<open>generate_modern_template\<close> of \<^verbatim>\<open>pdf-generator.py\<close>: the pieces in the order the function appends them.\<close>

definition pg_modern_doc :: "pyval \<Rightarrow> doc res" where
  "pg_modern_doc cv_data =
    bind (py_get cv_data ''personal'' (PDict [])) (\<lambda>personal.
    bind (py_get cv_data ''summary'' (PDict [])) (\<lambda>summary.
    bind (py_get cv_data ''keyCompetencies'' (PDict [])) (\<lambda>keyCompetencies.
    bind (py_get cv_data ''experiences'' (PList [])) (\<lambda>experiences.
    bind (py_get cv_data ''educations'' (PList [])) (\<lambda>educations.
    bind (py_get cv_data ''certificates'' (PList [])) (\<lambda>certificates.
    bind (py_get cv_data ''languages'' (PList [])) (\<lambda>languages.
    bind (py_get cv_data ''additional'' (PDict [])) (\<lambda>additional.
    fstring
      [pg_modern_page_head personal,
       pg_modern_summary summary,
       pg_modern_experience experiences,
       pg_modern_education educations,
       pg_modern_competencies keyCompetencies,
       pg_modern_certificates_languages certificates languages,
       pg_modern_additional additional,
       pg_modern_page_tail]))))))))"

definition pg_generate_modern_template :: "pyval \<Rightarrow> string res" where
  "pg_generate_modern_template cv_data = bind (pg_modern_doc cv_data) (\<lambda>d. Inr (html_of d))"

section \<open>\<^verbatim>\<open>pdf-generator.py\<close>: the minimal template\<close>

text \<open>The lines of the first string literal of \<^verbatim>\<open>generate_minimal_template\<close>, which holds the style sheet.\<close>

definition pg_minimal_head_lines :: "string list" where
  \<open>pg_minimal_head_lines =
    [[],
     ''    <html>'',
     ''    <head>'',
     ''        <meta charset="UTF-8">'',
     ''        <style>'',
     ''            @page {'',
     ''                size: A4;'',
     ''                margin: 1.5cm;'',
     ''            }'',
     ''            body {'',
     ''                font-family: Arial, sans-serif;'',
     ''                font-size: 11pt;'',
     ''                color: #333;'',
     ''                line-height: 1.4;'',
     ''                text-align: center;'',
     ''            }'',
     ''            .header {'',
     ''                margin-bottom: 30px;'',
     ''            }'',
     ''            .name {'',
     ''                font-size: 24pt;'',
     ''                font-weight: bold;'',
     ''                color: #043e44;'',
     ''                margin: 0;'',
     ''                letter-spacing: 2px;'',
     ''            }'',
     ''            .title {'',
     ''                font-size: 14pt;'',
     ''                color: #03d27c;'',
     ''                margin: 5px 0 20px 0;'',
     ''                font-weight: 300;'',
     ''            }'',
     ''            .contact-info {'',
     ''                margin-bottom: 20px;'',
     ''                font-size: 10pt;'',
     ''            }'',
     ''            .section {'',
     ''                margin-bottom: 30px;'',
     ''                text-align: left;'',
     ''            }'',
     ''            .section-title {'',
     ''                font-size: 12pt;'',
     ''                font-weight: bold;'',
     ''                color: #043e44;'',
     ''                text-align: center;'',
     ''                margin-bottom: 15px;'',
     ''                text-transform: uppercase;'',
     ''                letter-spacing: 1px;'',
     ''            }'',
     ''            .section-title:after {'',
     ''                content: "";'',
     ''                display: block;'',
     ''                width: 50px;'',
     ''                height: 1px;'',
     ''                background-color: #03d27c;'',
     ''                margin: 5px auto 15px;'',
     ''            }'',
     ''            .entry {'',
     ''                margin-bottom: 20px;'',
     ''            }'',
     ''            .entry-header {'',
     ''                display: flex;'',
     ''                justify-content: space-between;'',
     ''                align-items: flex-start;'',
     ''                margin-bottom: 5px;'',
     ''            }'',
     ''            .entry-title {'',
     ''                font-weight: bold;'',
     ''                margin: 0;'',
     ''            }'',
     ''            .entry-subtitle {'',
     ''                font-style: italic;'',
     ''                margin: 0;'',
     ''            }'',
     ''            .date-range {'',
     ''                font-size: 10pt;'',
     ''                color: #666;'',
     ''                text-align: right;'',
     ''            }'',
     ''            .skills-grid {'',
     ''                display: flex;'',
     ''                flex-wrap: wrap;'',
     ''                justify-content: center;'',
     ''                gap: 10px;'',
     ''            }'',
     ''            .skill-pill {'',
     ''                background-color: #f5f5f5;'',
     ''                padding: 5px 12px;'',
     ''                border-radius: 20px;'',
     ''                font-size: 10pt;'',
     ''                border: 1px solid #eee;'',
     ''            }'',
     ''            .divider {'',
     ''                height: 1px;'',
     ''                background-color: #eee;'',
     ''                margin: 30px 0;'',
     ''            }'',
     ''        </style>'',
     ''    </head>'',
     ''    <body>'',
     ''        <div class="header">'']\<close>

text \<open>\<^verbatim>\<open>pdf-generator.py\<close>, line 648.\<close>

definition pg_minimal_page_head :: "pyval \<Rightarrow> doc res" where
  \<open>pg_minimal_page_head personal =
    fstring
       [lit (unlines pg_minimal_head_lines @ ''            <h1 class="name">''),
        val (py_get personal ''firstName'' (PStr [])),
        lit '' '',
        val (py_get personal ''lastName'' (PStr [])),
        lit (''</h1>\<newline>''
            @ ''            <div class="title">''),
        val (py_get personal ''professionalTitle'' (PStr [])),
        lit (''</div>\<newline>''
            @ ''            <div class="contact-info">\<newline>''
            @ ''                ''),
        val (py_get personal ''email'' (PStr [])),
        lit '' | '',
        val (py_get personal ''phone'' (PStr [])),
        lit (''\<newline>''
            @ ''                ''),
        bind (test (py_get personal ''linkedin'' PNone)) (\<lambda>c. if c
          then fstring [lit '' | LinkedIn: '', val (bind (py_get personal ''linkedin'' (PStr [])) py_str_operand)]
          else lit []),
        lit (''\<newline>''
            @ ''            </div>\<newline>''
            @ ''        </div>\<newline>''
            @ ''    '')]\<close>

text \<open>\<^verbatim>\<open>pdf-generator.py\<close>, line 759.\<close>

definition pg_minimal_summary :: "pyval \<Rightarrow> doc res" where
  \<open>pg_minimal_summary summary =
    bind (test (py_get summary ''summary'' PNone)) (\<lambda>c. if c
        then fstring
              [lit (''\<newline>''
                   @ ''        <div class="section">\<newline>''
                   @ ''            <div class="section-title">Profile</div>\<newline>''
                   @ ''            <p style="text-align: center; max-width: 600px; margin: 0 auto;">\<newline>''
                   @ ''                ''),
               val (py_get summary ''summary'' (PStr [])),
               lit (''\<newline>''
                   @ ''            </p>\<newline>''
                   @ ''        </div>\<newline>''
                   @ ''        <div class="divider"></div>\<newline>''
                   @ ''        '')]
        else Inr [])\<close>

text \<open>\<^verbatim>\<open>pdf-generator.py\<close>, line 777.\<close>

definition pg_minimal_experience_entry :: "pyval \<Rightarrow> doc res" where
  \<open>pg_minimal_experience_entry exp =
    bind (py_get exp ''isCurrent'' (PBool False)) (\<lambda>current.
      bind (bind (test (Inr current)) (\<lambda>c. if c then Inr (PStr ''Present'') else py_get exp ''endDate'' (PStr []))) (\<lambda>end_date.
        fstring
           [lit (''\<newline>''
                @ ''            <div class="entry">\<newline>''
                @ ''                <div class="entry-header">\<newline>''
                @ ''                    <div>\<newline>''
                @ ''                        <p class="entry-title">''),
            val (py_get exp ''companyName'' (PStr [])),
            lit (''</p>\<newline>''
                @ ''                        <p class="entry-subtitle">''),
            val (py_get exp ''jobTitle'' (PStr [])),
            lit (''</p>\<newline>''
                @ ''                    </div>\<newline>''
                @ ''                    <p class="date-range">''),
            val (py_get exp ''startDate'' (PStr [])),
            lit '' - '',
            val (Inr end_date),
            lit (''</p>\<newline>''
                @ ''                </div>\<newline>''
                @ ''                <div>\<newline>''
                @ ''                    ''),
            val (py_get exp ''responsibilities'' (PStr [])),
            lit (''\<newline>''
                @ ''                </div>\<newline>''
                @ ''            </div>\<newline>''
                @ ''            '')]))\<close>

text \<open>\<^verbatim>\<open>pdf-generator.py\<close>, line 771.\<close>

definition pg_minimal_experience :: "pyval \<Rightarrow> doc res" where
  \<open>pg_minimal_experience experiences =
    bind (test (Inr experiences)) (\<lambda>c. if c
        then fstring
            [lit (''\<newline>''
                 @ ''        <div class="section">\<newline>''
                 @ ''            <div class="section-title">Experience</div>\<newline>''
                 @ ''        ''),
             for_each (Inr experiences) pg_minimal_experience_entry,
             lit ''</div>'']
        else Inr [])\<close>

text \<open>\<^verbatim>\<open>pdf-generator.py\<close>, line 806.\<close>

definition pg_minimal_education_entry :: "pyval \<Rightarrow> doc res" where
  \<open>pg_minimal_education_entry edu =
    fstring
       [lit (''\<newline>''
            @ ''            <div class="entry">\<newline>''
            @ ''                <div class="entry-header">\<newline>''
            @ ''                    <div>\<newline>''
            @ ''                        <p class="entry-title">''),
        val (py_get edu ''schoolName'' (PStr [])),
        lit (''</p>\<newline>''
            @ ''                        <p class="entry-subtitle">''),
        val (py_get edu ''major'' (PStr [])),
        lit (''</p>\<newline>''
            @ ''                    </div>\<newline>''
            @ ''                    <p class="date-range">''),
        val (py_get edu ''startDate'' (PStr [])),
        lit '' - '',
        val (py_get edu ''endDate'' (PStr [])),
        lit (''</p>\<newline>''
            @ ''                </div>\<newline>''
            @ ''                ''),
        bind (test (py_get edu ''achievements'' PNone)) (\<lambda>c. if c
          then fstring
                [lit ''<p>'',
                 val (py_get edu ''achievements'' (PStr [])),
                 lit ''</p>'']
          else lit []),
        lit (''\<newline>''
            @ ''            </div>\<newline>''
            @ ''            '')]\<close>

text \<open>\<^verbatim>\<open>pdf-generator.py\<close>, line 799.\<close>

definition pg_minimal_education :: "pyval \<Rightarrow> doc res" where
  \<open>pg_minimal_education educations =
    bind (test (Inr educations)) (\<lambda>c. if c
        then fstring
            [lit (''\<newline>''
                 @ ''        <div class="divider"></div>\<newline>''
                 @ ''        <div class="section">\<newline>''
                 @ ''            <div class="section-title">Education</div>\<newline>''
                 @ ''        ''),
             for_each (Inr educations) pg_minimal_education_entry,
             lit ''</div>'']
        else Inr [])\<close>

text \<open>\<^verbatim>\<open>pdf-generator.py\<close>, line 831.\<close>

definition pg_minimal_skills :: "pyval \<Rightarrow> doc res" where
  \<open>pg_minimal_skills all_skills =
    bind (test (Inr all_skills)) (\<lambda>c. if c
        then fstring
            [lit (''\<newline>''
                 @ ''        <div class="divider"></div>\<newline>''
                 @ ''        <div class="section">\<newline>''
                 @ ''            <div class="section-title">Skills</div>\<newline>''
                 @ ''            <div class="skills-grid">\<newline>''
                 @ ''        ''),
             for_each (Inr all_skills) (\<lambda>skill. fstring
                  [lit ''<div class="skill-pill">'',
                   val (Inr skill),
                   lit ''</div>'']),
             lit ''</div></div>'']
        else Inr [])\<close>

text \<open>\<^verbatim>\<open>pdf-generator.py\<close>, line 853.\<close>

definition pg_minimal_language_entry :: "pyval \<Rightarrow> doc res" where
  \<open>pg_minimal_language_entry lang =
    fstring
       [lit (''\<newline>''
            @ ''            <div style="margin-bottom: 5px; text-align: center;">\<newline>''
            @ ''                <p style="margin: 0;"><strong>''),
        val (py_get lang ''name'' (PStr [])),
        lit (''</strong></p>\<newline>''
            @ ''                <p style="margin: 0; font-size: 10pt; color: #666;">''),
        val (bind (py_get lang ''proficiency'' (PStr [])) py_capitalize),
        lit (''</p>\<newline>''
            @ ''            </div>\<newline>''
            @ ''            '')]\<close>

text \<open>\<^verbatim>\<open>pdf-generator.py\<close>, line 845.\<close>

definition pg_minimal_languages :: "pyval \<Rightarrow> doc res" where
  \<open>pg_minimal_languages languages =
    bind (test (Inr languages)) (\<lambda>c. if c
        then fstring
            [lit (''\<newline>''
                 @ ''        <div class="divider"></div>\<newline>''
                 @ ''        <div class="section">\<newline>''
                 @ ''            <div class="section-title">Languages</div>\<newline>''
                 @ ''            <div style="display: flex; justify-content: center; flex-wrap: wrap; gap: 20px;">\<newline>''
                 @ ''        ''),
             for_each (Inr languages) pg_minimal_language_entry,
             lit ''</div></div>'']
        else Inr [])\<close>

text \<open>\<^verbatim>\<open>pdf-generator.py\<close>, line 871.\<close>

definition pg_minimal_certificate_entry :: "pyval \<Rightarrow> doc res" where
  \<open>pg_minimal_certificate_entry cert =
    bind (bind (test (py_get cert ''expirationDate'' PNone)) (\<lambda>c. if c
          then fstring
                [lit '' (Expires: '',
                 val (py_get cert ''expirationDate'' PNone),
                 lit '')'']
          else lit [])) (\<lambda>expiration.
      fstring
         [lit (''\<newline>''
              @ ''            <div class="entry" style="text-align: center;">\<newline>''
              @ ''                <p style="margin: 0;"><strong>''),
          val (py_get cert ''name'' (PStr [])),
          lit (''</strong></p>\<newline>''
              @ ''                <p style="margin: 0; font-style: italic;">''),
          val (py_get cert ''institution'' (PStr [])),
          lit (''</p>\<newline>''
              @ ''                <p style="margin: 5px 0; font-size: 10pt; color: #666;">Acquired: ''),
          val (py_get cert ''dateAcquired'' (PStr [])),
          Inr expiration,
          lit (''</p>\<newline>''
              @ ''                ''),
          bind (test (py_get cert ''achievements'' PNone)) (\<lambda>c. if c
            then fstring
                  [lit ''<p>'',
                   val (py_get cert ''achievements'' (PStr [])),
                   lit ''</p>'']
            else lit []),
          lit (''\<newline>''
              @ ''            </div>\<newline>''
              @ ''            '')])\<close>

text \<open>\<^verbatim>\<open>pdf-generator.py\<close>, line 864.\<close>

definition pg_minimal_certificates :: "pyval \<Rightarrow> doc res" where
  \<open>pg_minimal_certificates certificates =
    bind (test (Inr certificates)) (\<lambda>c. if c
        then fstring
            [lit (''\<newline>''
                 @ ''        <div class="divider"></div>\<newline>''
                 @ ''        <div class="section">\<newline>''
                 @ ''            <div class="section-title">Certifications</div>\<newline>''
                 @ ''        ''),
             for_each (Inr certificates) pg_minimal_certificate_entry,
             lit ''</div>'']
        else Inr [])\<close>

text \<open>\<^verbatim>\<open>pdf-generator.py\<close>, line 885.\<close>

definition pg_minimal_page_tail :: "doc res" where
  \<open>pg_minimal_page_tail =
    lit (''\<newline>''
          @ ''    </body>\<newline>''
          @ ''    </html>\<newline>''
          @ ''    '')\<close>

text \<open>
  Lines 823 to 829: \<^verbatim>\<open>all_skills.extend(d.get(k, []))\<close> under \<^verbatim>\<open>if d.get(k)\<close>;
  \<^verbatim>\<open>extend\<close> iterates its argument.
\<close>

definition extend_if :: "pyval list \<Rightarrow> pyval \<Rightarrow> string \<Rightarrow> pyval list res" where
  "extend_if all_skills d k =
     bind (test (py_get d k PNone)) (\<lambda>c. if c
       then bind (py_get d k (PList [])) (\<lambda>v. bind (py_iter v) (\<lambda>items. Inr (all_skills @ items)))
       else Inr all_skills)"

definition pg_minimal_all_skills :: "pyval \<Rightarrow> pyval \<Rightarrow> pyval list res" where
  "pg_minimal_all_skills keyCompetencies additional =
     bind (extend_if [] keyCompetencies ''technicalSkills'') (\<lambda>s1.
     bind (extend_if s1 keyCompetencies ''softSkills'') (\<lambda>s2.
     extend_if s2 additional ''skills''))"

text \<open>\<^verbatim>\<open>generate_minimal_template\<close> of \<^verbatim>\<open>pdf-generator.py\<close>: the pieces in the order the function appends them.\<close>

definition pg_minimal_doc :: "pyval \<Rightarrow> doc res" where
  "pg_minimal_doc cv_data =
    bind (py_get cv_data ''personal'' (PDict [])) (\<lambda>personal.
    bind (py_get cv_data ''summary'' (PDict [])) (\<lambda>summary.
    bind (py_get cv_data ''keyCompetencies'' (PDict [])) (\<lambda>keyCompetencies.
    bind (py_get cv_data ''experiences'' (PList [])) (\<lambda>experiences.
    bind (py_get cv_data ''educations'' (PList [])) (\<lambda>educations.
    bind (py_get cv_data ''certificates'' (PList [])) (\<lambda>certificates.
    bind (py_get cv_data ''languages'' (PList [])) (\<lambda>languages.
    bind (py_get cv_data ''additional'' (PDict [])) (\<lambda>additional.
    fstring
      [pg_minimal_page_head personal,
       pg_minimal_summary summary,
       pg_minimal_experience experiences,
       pg_minimal_education educations,
       bind (pg_minimal_all_skills keyCompetencies additional) (\<lambda>all_skills.
          pg_minimal_skills (PList all_skills)),
       pg_minimal_languages languages,
       pg_minimal_certificates certificates,
       pg_minimal_page_tail]))))))))"

definition pg_generate_minimal_template :: "pyval \<Rightarrow> string res" where
  "pg_generate_minimal_template cv_data = bind (pg_minimal_doc cv_data) (\<lambda>d. Inr (html_of d))"

section \<open>\<^verbatim>\<open>pdf-generator.py\<close>: choosing the template\<close>

text \<open>
  \<^verbatim>\<open>generate_cv_pdf(json_data, template_style)\<close>. Two library calls are parameters of
  the model: \<open>loads\<close> is \<^verbatim>\<open>json.loads\<close> (\<open>None\<close> when it raises
  \<^verbatim>\<open>JSONDecodeError\<close>), \<open>convert\<close> is \<^verbatim>\<open>convert_html_to_pdf\<close>, which hands the
  document to the PDF library and writes the file. \<open>pg_html_content\<close> is the value of
  the variable \<^verbatim>\<open>html_content\<close> after the \<^verbatim>\<open>if\<close> chain of lines 81 to 88.
\<close>

definition pg_html_content :: "pyval \<Rightarrow> pyval \<Rightarrow> string res" where
  "pg_html_content json_data template_style =
     (if template_style = PStr ''professional'' then pg_generate_professional_template json_data
      else if template_style = PStr ''modern'' then pg_generate_modern_template json_data
      else if template_style = PStr ''minimal'' then pg_generate_minimal_template json_data
      else pg_generate_professional_template json_data)"

definition decode_json :: "(string \<Rightarrow> pyval option) \<Rightarrow> pyval \<Rightarrow> pyval option" where
  "decode_json loads json_data = (case json_data of PStr s \<Rightarrow> loads s | _ \<Rightarrow> Some json_data)"

definition pg_generate_cv_pdf ::
  "(string \<Rightarrow> pyval option) \<Rightarrow> (string \<Rightarrow> string \<Rightarrow> (bool \<times> pyval) res)
    \<Rightarrow> pyval \<Rightarrow> pyval \<Rightarrow> (bool \<times> pyval) res" where
  "pg_generate_cv_pdf loads convert json_data0 template_style =
     (case decode_json loads json_data0 of
        None \<Rightarrow> Inr (False, PStr ''Invalid JSON data'')
      | Some json_data \<Rightarrow>
          bind (py_get json_data ''personal'' (PDict [])) (\<lambda>personal.
          bind (py_get json_data ''summary'' (PDict [])) (\<lambda>summary.
          bind (py_get json_data ''keyCompetencies'' (PDict [])) (\<lambda>keyCompetencies.
          bind (py_get json_data ''experiences'' (PList [])) (\<lambda>experiences.
          bind (py_get json_data ''educations'' (PList [])) (\<lambda>educations.
          bind (py_get json_data ''certificates'' (PList [])) (\<lambda>certificates.
          bind (py_get json_data ''languages'' (PList [])) (\<lambda>languages.
          bind (py_get json_data ''additional'' (PDict [])) (\<lambda>additional.
          bind (py_get json_data ''templateSettings'' (PDict [])) (\<lambda>templateSettings.
          bind (py_get personal ''firstName'' (PStr ''CV'')) (\<lambda>first_name.
          bind (py_get personal ''lastName'' (PStr ''Document'')) (\<lambda>last_name.
          bind (pg_html_content json_data template_style) (\<lambda>html_content.
          convert html_content (py_str first_name @ ''_'' @ py_str last_name @ ''_CV.pdf''))))))))))))))"

section \<open>\<^verbatim>\<open>new-pdf-generator.py\<close>\<close>

text \<open>The lines of the first string literal of \<^verbatim>\<open>generate_professional_template\<close>, which holds the style sheet.\<close>

definition npg_professional_head_lines :: "string list" where
  \<open>npg_professional_head_lines =
    [[],
     ''    <html>'',
     ''    <head>'',
     ''        <meta charset="UTF-8">'',
     ''        <style>'',
     ''            @page {'',
     ''                size: A4;'',
     ''                margin: 1.5cm;'',
     ''            }'',
     ''            body {'',
     (''                font-family: '' @ [CHR 0x27] @ ''Arial'' @ [CHR 0x27] @ '', '' @ [CHR 0x27] @ ''Helvetica'' @ [CHR 0x27] @ '', sans-serif;''),
     ''                font-size: 11pt;'',
     ''                color: #043e44;'',
     ''                line-height: 1.5;'',
     ''                margin: 0;'',
     ''                padding: 0;'',
     ''            }'',
     ''            .header {'',
     ''                margin-bottom: 20px;'',
     ''            }'',
     ''            .name {'',
     ''                font-size: 24pt;'',
     ''                font-weight: bold;'',
     ''                color: #043e44;'',
     ''                margin: 0;'',
     ''                padding: 0;'',
     ''            }'',
     ''            .contact-info {'',
     ''                margin: 5px 0;'',
     ''                font-size: 10pt;'',
     ''                color: #666;'',
     ''            }'',
     ''            .section {'',
     ''                margin-bottom: 20px;'',
     ''                page-break-inside: avoid;'',
     ''            }'',
     ''            .section-title {'',
     ''                font-size: 14pt;'',
     ''                font-weight: bold;'',
     ''                color: #043e44;'',
     ''                border-bottom: 2px solid #03d27c;'',
     ''                padding-bottom: 5px;'',
     ''                margin-bottom: 15px;'',
     ''            }'',
     ''            .company-name {'',
     ''                font-weight: bold;'',
     ''                margin-bottom: 2px;'',
     ''                color: #043e44;'',
     ''            }'',
     ''            .job-title {'',
     ''                font-weight: 600;'',
     ''                color: #03d27c;'',
     ''                margin: 2px 0;'',
     ''            }'',
     ''            .date-range {'',
     ''                font-size: 10pt;'',
     ''                color: #666;'',
     ''                margin-bottom: 5px;'',
     ''            }'',
     ''            .responsibilities {'',
     ''                margin-top: 8px;'',
     ''                text-align: justify;'',
     ''            }'',
     ''            .school-name {'',
     ''                font-weight: bold;'',
     ''                color: #043e44;'',
     ''                margin-bottom: 2px;'',
     ''            }'',
     ''            .degree {'',
     ''                font-weight: 600;'',
     ''                color: #03d27c;'',
     ''            }'',
     ''            .skills-list {'',
     ''                display: flex;'',
     ''                flex-wrap: wrap;'',
     ''                margin: 0;'',
     ''                padding: 0;'',
     ''            }'',
     ''            .skill-item {'',
     ''                background-color: rgba(3, 210, 124, 0.1);'',
     ''                border: 1px solid #03d27c;'',
     ''                border-radius: 4px;'',
     ''                padding: 3px 8px;'',
     ''                margin: 3px;'',
     ''                font-size: 10pt;'',
     ''                color: #043e44;'',
     ''                display: inline-block;'',
     ''            }'',
     ''            .skill-category {'',
     ''                font-weight: bold;'',
     ''                margin-top: 10px;'',
     ''                margin-bottom: 5px;'',
     ''                color: #043e44;'',
     ''            }'',
     ''            .language {'',
     ''                margin-bottom: 5px;'',
     ''            }'',
     ''            .language-name {'',
     ''                font-weight: bold;'',
     ''            }'',
     ''            .language-level {'',
     ''                color: #03d27c;'',
     ''            }'',
     ''            ul {'',
     ''                padding-left: 20px;'',
     ''                margin: 5px 0;'',
     ''            }'',
     ''            li {'',
     ''                margin-bottom: 3px;'',
     ''            }'',
     ''            '',
     ''            /* Icons */'',
     ''            .icon {'',
     ''                display: inline-block;'',
     ''                width: 16px;'',
     ''                height: 16px;'',
     ''                margin-right: 5px;'',
     ''                vertical-align: middle;'',
     ''            }'',
     ''            .email-icon::before {'',
     (''                content: "'' @ [CHR 0xE2, CHR 0x9C, CHR 0x89] @ ''";''),
     ''                color: #03d27c;'',
     ''            }'',
     ''            .phone-icon::before {'',
     (''                content: "'' @ [CHR 0xE2, CHR 0x98, CHR 0x8E] @ ''";''),
     ''                color: #03d27c;'',
     ''            }'',
     ''            .linkedin-icon::before {'',
     ''                content: "in";'',
     ''                color: #03d27c;'',
     ''                font-weight: bold;'',
     ''            }'',
     ''        </style>'',
     ''    </head>'',
     ''    <body>'',
     ''        <div class="header">'']\<close>

text \<open>\<^verbatim>\<open>new-pdf-generator.py\<close>, line 67.\<close>

definition npg_professional_page_head :: "pyval \<Rightarrow> doc res" where
  \<open>npg_professional_page_head personal =
    fstring
       [lit (unlines npg_professional_head_lines @ ''            <h1 class="name">''),
        val (py_get personal ''firstName'' (PStr [])),
        lit '' '',
        val (py_get personal ''lastName'' (PStr [])),
        lit (''</h1>\<newline>''
            @ ''            <div class="contact-info">\<newline>''
            @ ''                <span class="icon email-icon"></span>''),
        val (py_get personal ''email'' (PStr [])),
        lit ('' \<newline>''
            @ ''                <span class="icon phone-icon" style="margin-left: 10px;"></span>''),
        val (py_get personal ''phone'' (PStr [])),
        lit (''\<newline>''
            @ ''                ''),
        bind (test (py_get personal ''linkedin'' PNone)) (\<lambda>c. if c
          then fstring
                [lit ''<span class="icon linkedin-icon" style="margin-left: 10px;"></span>'',
                 val (py_get personal ''linkedin'' (PStr []))]
          else lit []),
        lit (''\<newline>''
            @ ''            </div>\<newline>''
            @ ''        </div>\<newline>''
            @ ''    '')]\<close>

text \<open>\<^verbatim>\<open>new-pdf-generator.py\<close>, line 213.\<close>

definition npg_professional_summary :: "pyval \<Rightarrow> doc res" where
  \<open>npg_professional_summary professional =
    bind (py_and (test (Inr professional)) (test (py_get professional ''summary'' PNone))) (\<lambda>c. if c
        then fstring
              [lit (''\<newline>''
                   @ ''        <div class="section">\<newline>''
                   @ ''            <div class="section-title">Professional Summary</div>\<newline>''
                   @ ''            <p>''),
               val (py_get professional ''summary'' (PStr [])),
               lit (''</p>\<newline>''
                   @ ''        </div>\<newline>''
                   @ ''        '')]
        else Inr [])\<close>

text \<open>\<^verbatim>\<open>new-pdf-generator.py\<close>, line 222.\<close>

definition npg_professional_competencies :: "pyval \<Rightarrow> doc res" where
  \<open>npg_professional_competencies keyCompetencies =
    bind (py_and (test (Inr keyCompetencies)) (py_or (test (py_get keyCompetencies ''technicalSkills'' PNone)) (test (py_get keyCompetencies ''softSkills'' PNone)))) (\<lambda>c. if c
        then fstring
            [lit (''\<newline>''
                 @ ''        <div class="section">\<newline>''
                 @ ''            <div class="section-title">Key Competencies</div>\<newline>''
                 @ ''        ''),
             bind (test (py_get keyCompetencies ''technicalSkills'' PNone)) (\<lambda>c. if c
               then fstring
                   [lit (''\<newline>''
                        @ ''            <div class="skill-category">Technical Skills:</div>\<newline>''
                        @ ''            <div class="skills-list">\<newline>''
                        @ ''            ''),
                    for_each (py_get keyCompetencies ''technicalSkills'' (PList [])) (\<lambda>skill. fstring
                         [lit ''<div class="skill-item">'',
                          val (Inr skill),
                          lit ''</div>'']),
                    lit ''</div>'']
               else Inr []),
             bind (test (py_get keyCompetencies ''softSkills'' PNone)) (\<lambda>c. if c
               then fstring
                   [lit (''\<newline>''
                        @ ''            <div class="skill-category">Soft Skills:</div>\<newline>''
                        @ ''            <div class="skills-list">\<newline>''
                        @ ''            ''),
                    for_each (py_get keyCompetencies ''softSkills'' (PList [])) (\<lambda>skill. fstring
                         [lit ''<div class="skill-item">'',
                          val (Inr skill),
                          lit ''</div>'']),
                    lit ''</div>'']
               else Inr []),
             lit ''</div>'']
        else Inr [])\<close>

text \<open>\<^verbatim>\<open>new-pdf-generator.py\<close>, line 257.\<close>

definition npg_professional_experience_entry :: "pyval \<Rightarrow> doc res" where
  \<open>npg_professional_experience_entry job =
    bind (py_get job ''isCurrent'' (PBool False)) (\<lambda>current.
      bind (bind (test (Inr current)) (\<lambda>c. if c then Inr (PStr ''Present'') else py_get job ''endDate'' (PStr []))) (\<lambda>end_date.
        fstring
           [lit (''\<newline>''
                @ ''            <div style="margin-bottom: 15px;">\<newline>''
                @ ''                <div class="company-name">''),
            val (py_get job ''companyName'' (PStr [])),
            lit (''</div>\<newline>''
                @ ''                <div class="job-title">''),
            val (py_get job ''jobTitle'' (PStr [])),
            lit (''</div>\<newline>''
                @ ''                <div class="date-range">''),
            val (py_get job ''startDate'' (PStr [])),
            lit '' - '',
            val (Inr end_date),
            lit (''</div>\<newline>''
                @ ''                <div class="responsibilities">\<newline>''
                @ ''                    ''),
            val (py_get job ''responsibilities'' (PStr [])),
            lit (''\<newline>''
                @ ''                </div>\<newline>''
                @ ''            </div>\<newline>''
                @ ''            '')]))\<close>

text \<open>\<^verbatim>\<open>new-pdf-generator.py\<close>, line 251.\<close>

definition npg_professional_experience :: "pyval \<Rightarrow> doc res" where
  \<open>npg_professional_experience experience =
    bind (test (Inr experience)) (\<lambda>c. if c
        then fstring
            [lit (''\<newline>''
                 @ ''        <div class="section">\<newline>''
                 @ ''            <div class="section-title">Professional Experience</div>\<newline>''
                 @ ''        ''),
             for_each (Inr experience) npg_professional_experience_entry,
             lit ''</div>'']
        else Inr [])\<close>

text \<open>\<^verbatim>\<open>new-pdf-generator.py\<close>, line 281.\<close>

definition npg_professional_education_entry :: "pyval \<Rightarrow> doc res" where
  \<open>npg_professional_education_entry edu =
    fstring
       [lit (''\<newline>''
            @ ''            <div style="margin-bottom: 15px;">\<newline>''
            @ ''                <div class="school-name">''),
        val (py_get edu ''schoolName'' (PStr [])),
        lit (''</div>\<newline>''
            @ ''                <div class="degree">''),
        val (py_get edu ''major'' (PStr [])),
        lit (''</div>\<newline>''
            @ ''                <div class="date-range">''),
        val (py_get edu ''startDate'' (PStr [])),
        lit '' - '',
        val (py_get edu ''endDate'' (PStr [])),
        lit (''</div>\<newline>''
            @ ''                ''),
        bind (test (py_get edu ''achievements'' PNone)) (\<lambda>c. if c
          then fstring
                [lit ''<p>'',
                 val (py_get edu ''achievements'' (PStr [])),
                 lit ''</p>'']
          else lit []),
        lit (''\<newline>''
            @ ''            </div>\<newline>''
            @ ''            '')]\<close>

text \<open>\<^verbatim>\<open>new-pdf-generator.py\<close>, line 275.\<close>

definition npg_professional_education :: "pyval \<Rightarrow> doc res" where
  \<open>npg_professional_education education =
    bind (test (Inr education)) (\<lambda>c. if c
        then fstring
            [lit (''\<newline>''
                 @ ''        <div class="section">\<newline>''
                 @ ''            <div class="section-title">Education</div>\<newline>''
                 @ ''        ''),
             for_each (Inr education) npg_professional_education_entry,
             lit ''</div>'']
        else Inr [])\<close>

text \<open>\<^verbatim>\<open>new-pdf-generator.py\<close>, line 300.\<close>

definition npg_professional_certificate_entry :: "pyval \<Rightarrow> doc res" where
  \<open>npg_professional_certificate_entry cert =
    bind (bind (test (py_get cert ''expirationDate'' PNone)) (\<lambda>c. if c
          then fstring
                [lit '' - Expires: '',
                 val (py_get cert ''expirationDate'' (PStr []))]
          else lit [])) (\<lambda>expiry.
      fstring
         [lit (''\<newline>''
              @ ''            <div style="margin-bottom: 10px;">\<newline>''
              @ ''                <div class="school-name">''),
          val (py_get cert ''name'' (PStr [])),
          lit (''</div>\<newline>''
              @ ''                <div class="job-title">''),
          val (py_get cert ''institution'' (PStr [])),
          lit (''</div>\<newline>''
              @ ''                <div class="date-range">Acquired: ''),
          val (py_get cert ''dateAcquired'' (PStr [])),
          Inr expiry,
          lit (''</div>\<newline>''
              @ ''                ''),
          bind (test (py_get cert ''achievements'' PNone)) (\<lambda>c. if c
            then fstring
                  [lit ''<p>'',
                   val (py_get cert ''achievements'' (PStr [])),
                   lit ''</p>'']
            else lit []),
          lit (''\<newline>''
              @ ''            </div>\<newline>''
              @ ''            '')])\<close>

text \<open>\<^verbatim>\<open>new-pdf-generator.py\<close>, line 294.\<close>

definition npg_professional_certificates :: "pyval \<Rightarrow> doc res" where
  \<open>npg_professional_certificates certificates =
    bind (test (Inr certificates)) (\<lambda>c. if c
        then fstring
            [lit (''\<newline>''
                 @ ''        <div class="section">\<newline>''
                 @ ''            <div class="section-title">Certifications</div>\<newline>''
                 @ ''        ''),
             for_each (Inr certificates) npg_professional_certificate_entry,
             lit ''</div>'']
        else Inr [])\<close>

text \<open>\<^verbatim>\<open>new-pdf-generator.py\<close>, line 321.\<close>

definition npg_professional_extracurricular_entry :: "pyval \<Rightarrow> doc res" where
  \<open>npg_professional_extracurricular_entry extra =
    bind (py_get extra ''isCurrent'' (PBool False)) (\<lambda>current.
      bind (bind (test (Inr current)) (\<lambda>c. if c then Inr (PStr ''Present'') else py_get extra ''endDate'' (PStr []))) (\<lambda>end_date.
        fstring
           [lit (''\<newline>''
                @ ''            <div style="margin-bottom: 15px;">\<newline>''
                @ ''                <div class="company-name">''),
            val (py_get extra ''organization'' (PStr [])),
            lit (''</div>\<newline>''
                @ ''                <div class="job-title">''),
            val (py_get extra ''role'' (PStr [])),
            lit (''</div>\<newline>''
                @ ''                <div class="date-range">''),
            val (py_get extra ''startDate'' (PStr [])),
            lit '' - '',
            val (Inr end_date),
            lit (''</div>\<newline>''
                @ ''                <div class="responsibilities">\<newline>''
                @ ''                    ''),
            val (py_get extra ''description'' (PStr [])),
            lit (''\<newline>''
                @ ''                </div>\<newline>''
                @ ''            </div>\<newline>''
                @ ''            '')]))\<close>

text \<open>\<^verbatim>\<open>new-pdf-generator.py\<close>, line 315.\<close>

definition npg_professional_extracurricular :: "pyval \<Rightarrow> doc res" where
  \<open>npg_professional_extracurricular extracurricular =
    bind (test (Inr extracurricular)) (\<lambda>c. if c
        then fstring
            [lit (''\<newline>''
                 @ ''        <div class="section">\<newline>''
                 @ ''            <div class="section-title">Extracurricular Activities</div>\<newline>''
                 @ ''        ''),
             for_each (Inr extracurricular) npg_professional_extracurricular_entry,
             lit ''</div>'']
        else Inr [])\<close>

text \<open>\<^verbatim>\<open>new-pdf-generator.py\<close>, line 345.\<close>

definition npg_professional_language_entry :: "pyval \<Rightarrow> doc res" where
  \<open>npg_professional_language_entry lang =
    fstring
       [lit (''\<newline>''
            @ ''            <div class="language">\<newline>''
            @ ''                <span class="language-name">''),
        val (py_get lang ''name'' (PStr [])),
        lit (''</span> - \<newline>''
            @ ''                <span class="language-level">''),
        val (bind (py_get lang ''proficiency'' (PStr [])) py_capitalize),
        lit (''</span>\<newline>''
            @ ''            </div>\<newline>''
            @ ''            '')]\<close>

text \<open>\<^verbatim>\<open>new-pdf-generator.py\<close>, line 339.\<close>

definition npg_professional_languages :: "pyval \<Rightarrow> doc res" where
  \<open>npg_professional_languages languages =
    bind (test (Inr languages)) (\<lambda>c. if c
        then fstring
            [lit (''\<newline>''
                 @ ''        <div class="section">\<newline>''
                 @ ''            <div class="section-title">Languages</div>\<newline>''
                 @ ''        ''),
             for_each (Inr languages) npg_professional_language_entry,
             lit ''</div>'']
        else Inr [])\<close>

text \<open>\<^verbatim>\<open>new-pdf-generator.py\<close>, line 356.\<close>

definition npg_professional_additional :: "pyval \<Rightarrow> doc res" where
  \<open>npg_professional_additional additional =
    bind (py_and (test (Inr additional)) (test (py_get additional ''skills'' PNone))) (\<lambda>c. if c
        then fstring
            [lit (''\<newline>''
                 @ ''        <div class="section">\<newline>''
                 @ ''            <div class="section-title">Additional Skills</div>\<newline>''
                 @ ''            <div class="skills-list">\<newline>''
                 @ ''        ''),
             for_each (py_get additional ''skills'' (PList [])) (\<lambda>skill. fstring
                  [lit ''<div class="skill-item">'',
                   val (Inr skill),
                   lit ''</div>'']),
             lit ''</div></div>'']
        else Inr [])\<close>

text \<open>\<^verbatim>\<open>new-pdf-generator.py\<close>, line 368.\<close>

definition npg_professional_page_tail :: "doc res" where
  \<open>npg_professional_page_tail =
    lit (''\<newline>''
          @ ''    </body>\<newline>''
          @ ''    </html>\<newline>''
          @ ''    '')\<close>

text \<open>\<^verbatim>\<open>generate_professional_template\<close> of \<^verbatim>\<open>new-pdf-generator.py\<close>: the pieces in the order the function appends them.\<close>

definition npg_professional_doc :: "pyval \<Rightarrow> doc res" where
  "npg_professional_doc cv_data =
    bind (py_get cv_data ''personal'' (PDict [])) (\<lambda>personal.
    bind (py_get cv_data ''professional'' (PDict [])) (\<lambda>professional.
    bind (py_get cv_data ''keyCompetencies'' (PDict [])) (\<lambda>keyCompetencies.
    bind (py_get cv_data ''experience'' (PList [])) (\<lambda>experience.
    bind (py_get cv_data ''education'' (PList [])) (\<lambda>education.
    bind (py_get cv_data ''certificates'' (PList [])) (\<lambda>certificates.
    bind (py_get cv_data ''languages'' (PList [])) (\<lambda>languages.
    bind (py_get cv_data ''extracurricular'' (PList [])) (\<lambda>extracurricular.
    bind (py_get cv_data ''additional'' (PDict [])) (\<lambda>additional.
    bind (py_get cv_data ''templateSettings'' (PDict [])) (\<lambda>templateSettings.
    fstring
      [npg_professional_page_head personal,
       npg_professional_summary professional,
       npg_professional_competencies keyCompetencies,
       npg_professional_experience experience,
       npg_professional_education education,
       npg_professional_certificates certificates,
       npg_professional_extracurricular extracurricular,
       npg_professional_languages languages,
       npg_professional_additional additional,
       npg_professional_page_tail]))))))))))"

definition npg_generate_professional_template :: "pyval \<Rightarrow> string res" where
  "npg_generate_professional_template cv_data =
     bind (npg_professional_doc cv_data) (\<lambda>d. Inr (html_of d))"

text \<open>Lines 375 to 381: the other two styles call the professional one.\<close>

definition npg_generate_modern_template :: "pyval \<Rightarrow> string res" where
  "npg_generate_modern_template cv_data = npg_generate_professional_template cv_data"

definition npg_generate_minimal_template :: "pyval \<Rightarrow> string res" where
  "npg_generate_minimal_template cv_data = npg_generate_professional_template cv_data"

text \<open>\<^verbatim>\<open>generate_cv_pdf\<close>, lines 383 to 420, with the same two parameters as above.\<close>

definition npg_html_content :: "pyval \<Rightarrow> pyval \<Rightarrow> string res" where
  "npg_html_content json_data template_style =
     (if template_style = PStr ''professional'' then npg_generate_professional_template json_data
      else if template_style = PStr ''modern'' then npg_generate_modern_template json_data
      else if template_style = PStr ''minimal'' then npg_generate_minimal_template json_data
      else npg_generate_professional_template json_data)"

definition npg_generate_cv_pdf ::
  "(string \<Rightarrow> pyval option) \<Rightarrow> (string \<Rightarrow> string \<Rightarrow> (bool \<times> pyval) res)
    \<Rightarrow> pyval \<Rightarrow> pyval \<Rightarrow> (bool \<times> pyval) res" where
  "npg_generate_cv_pdf loads convert json_data0 template_style =
     (case decode_json loads json_data0 of
        None \<Rightarrow> Inr (False, PStr ''Invalid JSON data'')
      | Some json_data \<Rightarrow>
          bind (py_get json_data ''personal'' (PDict [])) (\<lambda>personal.
          bind (py_get personal ''firstName'' (PStr ''CV'')) (\<lambda>first_name.
          bind (py_get personal ''lastName'' (PStr ''Document'')) (\<lambda>last_name.
          bind (npg_html_content json_data template_style) (\<lambda>html_content.
          convert html_content (py_str first_name @ ''_'' @ py_str last_name @ ''_CV.pdf''))))))"

section \<open>Notions used in the statements\<close>

subsection \<open>Searching text\<close>

text \<open>
  \<open>starts_with\<close> and \<open>contains\<close> compute \<open>prefix\<close> and \<open>sublist\<close>;
  \<open>occurrences p s\<close> counts the positions of \<open>s\<close> at which \<open>p\<close> starts;
  \<open>text_behind m s\<close> is the text that follows the first occurrence of \<open>m\<close> in \<open>s\<close>.
\<close>

fun starts_with :: "string \<Rightarrow> string \<Rightarrow> bool" where
  "starts_with [] s = True"
| "starts_with (p # ps) [] = False"
| "starts_with (p # ps) (c # cs) = (if p = c then starts_with ps cs else False)"

fun contains :: "string \<Rightarrow> string \<Rightarrow> bool" where
  "contains p [] = (p = [])"
| "contains p (c # cs) = (if starts_with p (c # cs) then True else contains p cs)"

fun occurrences :: "string \<Rightarrow> string \<Rightarrow> nat" where
  "occurrences p [] = 0"
| "occurrences p (c # cs) = (if starts_with p (c # cs) then Suc (occurrences p cs) else occurrences p cs)"

fun strip_prefix :: "string \<Rightarrow> string \<Rightarrow> string option" where
  "strip_prefix [] s = Some s"
| "strip_prefix (p # ps) [] = None"
| "strip_prefix (p # ps) (c # cs) = (if p = c then strip_prefix ps cs else None)"

fun text_behind :: "string \<Rightarrow> string \<Rightarrow> string option" where
  "text_behind m [] = None"
| "text_behind m (c # cs) =
     (case strip_prefix m (c # cs) of Some rest \<Rightarrow> Some rest | None \<Rightarrow> text_behind m cs)"





text \<open>
  The section headings of a document: for every \<^verbatim>\<open><div class="section-title">\<close> that
  the program wrote, the text up to the next tag. \<open>markup_has p d\<close>: the program
  wrote \<open>p\<close> somewhere in \<open>d\<close>.
\<close>

definition title_marker :: string where
  \<open>title_marker = ''<div class="section-title">''\<close>

fun titles_in :: "string \<Rightarrow> string list" where
  "titles_in [] = []"
| "titles_in (c # cs) =
     (case strip_prefix title_marker (c # cs) of
        Some rest \<Rightarrow> takeWhile (\<lambda>x. x \<noteq> CHR ''<'') rest # titles_in cs
      | None \<Rightarrow> titles_in cs)"



subsection \<open>Reading a record\<close>

text \<open>
  \<open>field kvs k dflt\<close> is what \<^verbatim>\<open>d.get(k, dflt)\<close> returns on the dict \<open>kvs\<close>.
  \<open>lookup\<close> follows one key of a path and gives \<^verbatim>\<open>None\<close> where the key, or the
  dict, is missing; \<open>present cv path\<close> says that the record has a value at the path that
  is not empty (not \<^verbatim>\<open>None\<close>, \<^verbatim>\<open>""\<close>, \<^verbatim>\<open>[]\<close>, \<^verbatim>\<open>{}\<close>, \<^verbatim>\<open>0\<close> or \<^verbatim>\<open>false\<close>).
\<close>

definition field :: "(string \<times> pyval) list \<Rightarrow> string \<Rightarrow> pyval \<Rightarrow> pyval" where
  "field kvs k dflt = (case map_of kvs k of Some v \<Rightarrow> v | None \<Rightarrow> dflt)"

fun lookup :: "pyval \<Rightarrow> string \<Rightarrow> pyval" where
  "lookup (PDict kvs) k = (case map_of kvs k of Some v \<Rightarrow> v | None \<Rightarrow> PNone)"
| "lookup _ k = PNone"

definition present :: "pyval \<Rightarrow> string list \<Rightarrow> bool" where
  "present cv path = truthy (foldl lookup cv path)"

section \<open>Records used as examples\<close>

text \<open>A record with one language whose proficiency is \<^verbatim>\<open>null\<close>.\<close>

definition null_proficiency :: pyval where
  "null_proficiency =
     PDict [(''languages'', PList [PDict [(''name'', PStr ''English''), (''proficiency'', PNone)]])]"







section \<open>Basic facts\<close>

lemma bind_Inr [simp]: "bind (Inr x) f = f x" by (simp add: bind_def)
lemma bind_Inl [simp]: "bind (Inl e) f = Inl e" by (simp add: bind_def)

lemmas combinator_defs = lit_def val_def test_def for_each_def py_or_def py_and_def

lemmas pg_professional_defs =
  pg_generate_professional_template_def pg_professional_doc_def pg_professional_page_head_def
  pg_professional_summary_def pg_professional_competencies_def pg_professional_experience_def
  pg_professional_experience_entry_def pg_professional_education_def
  pg_professional_education_entry_def pg_professional_certificates_def
  pg_professional_certificate_entry_def pg_professional_languages_def
  pg_professional_language_entry_def pg_professional_additional_def pg_professional_page_tail_def

lemmas pg_modern_defs =
  pg_generate_modern_template_def pg_modern_doc_def pg_modern_page_head_def
  pg_modern_summary_def pg_modern_competencies_def pg_modern_experience_def
  pg_modern_experience_entry_def pg_modern_education_def
  pg_modern_education_entry_def pg_modern_certificates_languages_def
  pg_modern_certificate_entry_def
  pg_modern_language_entry_def pg_modern_additional_def pg_modern_page_tail_def

lemmas pg_minimal_defs =
  pg_generate_minimal_template_def pg_minimal_doc_def pg_minimal_page_head_def
  pg_minimal_summary_def pg_minimal_skills_def pg_minimal_experience_def
  pg_minimal_experience_entry_def pg_minimal_education_def
  pg_minimal_education_entry_def pg_minimal_certificates_def
  pg_minimal_certificate_entry_def pg_minimal_languages_def
  pg_minimal_language_entry_def pg_minimal_all_skills_def extend_if_def pg_minimal_page_tail_def

lemmas npg_professional_defs =
  npg_generate_professional_template_def npg_professional_doc_def npg_professional_page_head_def
  npg_professional_summary_def npg_professional_competencies_def npg_professional_experience_def
  npg_professional_experience_entry_def npg_professional_education_def
  npg_professional_education_entry_def npg_professional_certificates_def
  npg_professional_certificate_entry_def npg_professional_languages_def
  npg_professional_language_entry_def npg_professional_additional_def
  npg_professional_extracurricular_def npg_professional_extracurricular_entry_def
  npg_professional_page_tail_def

subsection \<open>Evaluating searches\<close>

declare starts_with.simps [simp del] contains.simps [simp del] occurrences.simps [simp del]
  strip_prefix.simps [simp del] text_behind.simps [simp del] titles_in.simps [simp del]





lemma field_update [simp]:
  "field (AList.update k v kvs) k' dflt = (if k' = k then v else field kvs k' dflt)"
  by (simp add: field_def update_conv')


















lemma html_of_simps [simp]: "html_of (p # d) = piece_text p @ html_of d" "html_of [] = []"
  by (simp_all add: html_of_def)

section \<open>Properties of the date formatter\<close>

lemma format_date_returns: "\<exists>s. format_date v c = Inr s"
  unfolding format_date_def Let_def
  by (auto split: sum.splits py_error.splits pyval.splits)

text \<open>
  Claim C4. The date formatter turns \<^verbatim>\<open>"2023-03-15"\<close> into \<^verbatim>\<open>"Mar 2023"\<close>, the empty
  string into the empty string, and leaves \<^verbatim>\<open>"not-a-date"\<close> as it is; with the
  current flag set it returns \<^verbatim>\<open>"Present"\<close> for every raw value, of any type.
\<close>

theorem format_date_examples:
  "format_date (PStr ''2023-03-15'') (PBool False) = Inr ''Mar 2023''
   \<and> format_date (PStr []) (PBool False) = Inr []
   \<and> format_date (PStr ''not-a-date'') (PBool False) = Inr ''not-a-date''
   \<and> (\<forall>v. format_date v (PBool True) = Inr ''Present'')"
proof -
  have a: "format_date (PStr ''2023-03-15'') (PBool False) = Inr ''Mar 2023''"
    by code_simp
  have b: "format_date (PStr []) (PBool False) = Inr []"
    by (simp add: format_date_def)
  have c: "format_date (PStr ''not-a-date'') (PBool False) = Inr ''not-a-date''"
    by code_simp
  have d: "\<forall>v. format_date v (PBool True) = Inr ''Present''"
    by (simp add: format_date_def)
  from a b c d show ?thesis by blast
qed

section \<open>A missing value and a null value\<close>

text \<open>
  Claim C9. Composing the document is claimed never to raise on a degraded record, for
  example one whose language entry has a \<^verbatim>\<open>null\<close> proficiency. Every generator reads
  the proficiency with \<^verbatim>\<open>lang.get('proficiency', '').capitalize()\<close>: the default covers
  a missing key only, and on \<^verbatim>\<open>None\<close> the method call raises \<^verbatim>\<open>AttributeError\<close>.
\<close>

theorem null_proficiency_raises:
  "pg_generate_professional_template null_proficiency = Inl AttributeError
   \<and> pg_generate_modern_template null_proficiency = Inl AttributeError
   \<and> pg_generate_minimal_template null_proficiency = Inl AttributeError
   \<and> npg_generate_professional_template null_proficiency = Inl AttributeError"
proof -
  have a: "pg_generate_professional_template null_proficiency = Inl AttributeError"
    by (simp add: null_proficiency_def pg_professional_defs combinator_defs)
  have b: "pg_generate_modern_template null_proficiency = Inl AttributeError"
    by (simp add: null_proficiency_def pg_modern_defs combinator_defs)
  have c: "pg_generate_minimal_template null_proficiency = Inl AttributeError"
    by (simp add: null_proficiency_def pg_minimal_defs combinator_defs)
  have d: "npg_generate_professional_template null_proficiency = Inl AttributeError"
    by (simp add: null_proficiency_def npg_professional_defs combinator_defs)
  from a b c d show ?thesis by blast
qed

section \<open>The three styles of \<^verbatim>\<open>new-pdf-generator.py\<close>\<close>

text \<open>
  Claim C10. In \<^verbatim>\<open>new-pdf-generator.py\<close> the modern and the minimal generator return, for
  every input, what the professional generator returns (the same string, or the same
  exception).
\<close>

theorem new_generator_styles_coincide:
  "npg_generate_modern_template cv_data = npg_generate_professional_template cv_data
   \<and> npg_generate_minimal_template cv_data = npg_generate_professional_template cv_data"
  by (simp add: npg_generate_modern_template_def npg_generate_minimal_template_def)

section \<open>Unknown template styles\<close>

text \<open>
  Claim C7. For every record and every style identifier other than \<^verbatim>\<open>"professional"\<close>,
  \<^verbatim>\<open>"modern"\<close> and \<^verbatim>\<open>"minimal"\<close> (the empty string included), the document, and the
  result of \<^verbatim>\<open>generate_cv_pdf\<close> as a whole, are those of the style \<^verbatim>\<open>"professional"\<close>,
  in both generator files.
\<close>

theorem unknown_style_falls_back:
  assumes "s \<noteq> PStr ''professional''" and "s \<noteq> PStr ''modern''" and "s \<noteq> PStr ''minimal''"
  shows "pg_html_content r s = pg_html_content r (PStr ''professional'')
    \<and> npg_html_content r s = npg_html_content r (PStr ''professional'')
    \<and> pg_generate_cv_pdf loads convert r s = pg_generate_cv_pdf loads convert r (PStr ''professional'')
    \<and> npg_generate_cv_pdf loads convert r s = npg_generate_cv_pdf loads convert r (PStr ''professional'')"
proof -
  have pg: "pg_html_content j s = pg_html_content j (PStr ''professional'')" for j
    using assms by (simp add: pg_html_content_def)
  have npg: "npg_html_content j s = npg_html_content j (PStr ''professional'')" for j
    using assms by (simp add: npg_html_content_def)
  show ?thesis
    by (simp add: pg npg pg_generate_cv_pdf_def npg_generate_cv_pdf_def split: option.split)
qed

theorem unknown_style_falls_back_witness:
  "PStr [] \<noteq> PStr ''professional'' \<and> PStr [] \<noteq> PStr ''modern'' \<and> PStr [] \<noteq> PStr ''minimal''
   \<and> pg_html_content (PDict []) (PStr []) = pg_html_content (PDict []) (PStr ''professional'')
   \<and> npg_html_content (PDict []) (PStr []) = npg_html_content (PDict []) (PStr ''professional'')
   \<and> pg_generate_cv_pdf (\<lambda>s. None) (\<lambda>h f. Inr (True, PStr f)) (PDict []) (PStr [])
       = pg_generate_cv_pdf (\<lambda>s. None) (\<lambda>h f. Inr (True, PStr f)) (PDict []) (PStr ''professional'')
   \<and> npg_generate_cv_pdf (\<lambda>s. None) (\<lambda>h f. Inr (True, PStr f)) (PDict []) (PStr [])
       = npg_generate_cv_pdf (\<lambda>s. None) (\<lambda>h f. Inr (True, PStr f)) (PDict []) (PStr ''professional'')"
  using unknown_style_falls_back [of "PStr []" "PDict []" "\<lambda>s. None" "\<lambda>h f. Inr (True, PStr f)"]
  by simp

section \<open>Entries marked as current\<close>





section \<open>The expiration date of a certificate\<close>









section \<open>The end-to-end scenario\<close>







end
